theory Spec2Isabelle
  imports Complex_Main
begin

section \<open>The demo application of app/server.js\<close>

text \<open>
  The program is one Express application: a middleware that times every request and, on
  the response's \<open>finish\<close> event, updates four Prometheus instruments and appends
  one line to a log file; three routes that each open a trace span; and a metrics route.
  The model passes state explicitly. What the process reads from its surroundings
  (clock readings, the draws of \<open>Math.random\<close>, the outcome of the file write) is
  collected in a record of inputs, \<open>env\<close>. The start and shutdown of the
  OpenTelemetry SDK and the export of spans are outside the model: of a span it keeps
  the calls the handler makes on it.
\<close>

subsection \<open>JavaScript strings and JSON text\<close>

text \<open>\<open>String(n)\<close> for an integer-valued number: its decimal digits, with a sign.\<close>

definition digit :: "nat \<Rightarrow> char" where
  "digit n = ''0123456789'' ! n"

fun digits10 :: "nat \<Rightarrow> string" where
  "digits10 n = (if n < 10 then [digit n] else digits10 (n div 10) @ [digit (n mod 10)])"

declare digits10.simps [simp del]

definition String_int :: "int \<Rightarrow> string" where
  "String_int i = (if i < 0 then CHR ''-'' # digits10 (nat (- i)) else digits10 (nat i))"

text \<open>
  The values stored in the objects that the program serialises: booleans, integer-valued
  numbers, other numbers, and strings. All the objects of server.js are flat.
\<close>

datatype jval = JBool bool | JInt int | JNum real | JStr string

type_synonym jobject = "(string \<times> jval) list"

text \<open>
  \<open>JSON.stringify\<close> on a string: surrounded by double quotes, with the double quote
  (0x22) and the backslash (0x5C) escaped, the control characters below 0x20 written as
  their short escape or as \<open>\u00XX\<close>.
\<close>

definition hex_digit :: "nat \<Rightarrow> char" where
  "hex_digit n = ''0123456789abcdef'' ! n"

definition escape_char :: "char \<Rightarrow> string" where
  "escape_char c =
     (if c = CHR 0x22 then [CHR 0x5C, CHR 0x22]
      else if c = CHR 0x5C then [CHR 0x5C, CHR 0x5C]
      else if c = CHR 0x08 then [CHR 0x5C, CHR ''b'']
      else if c = CHR 0x0C then [CHR 0x5C, CHR ''f'']
      else if c = CHR 0x0A then [CHR 0x5C, CHR ''n'']
      else if c = CHR 0x0D then [CHR 0x5C, CHR ''r'']
      else if c = CHR 0x09 then [CHR 0x5C, CHR ''t'']
      else if (of_char c :: nat) < 32
        then [CHR 0x5C, CHR ''u'', CHR ''0'', CHR ''0'',
              hex_digit ((of_char c :: nat) div 16), hex_digit ((of_char c :: nat) mod 16)]
      else [c])"

definition quote :: "string \<Rightarrow> string" where
  "quote s = [CHR 0x22] @ concat (map escape_char s) @ [CHR 0x22]"

text \<open>
  The rendering of a number that is not an integer is JavaScript's shortest round-trip
  decimal of a double; it is taken as a parameter \<open>num\<close>.
\<close>

fun stringify_val :: "(real \<Rightarrow> string) \<Rightarrow> jval \<Rightarrow> string" where
  "stringify_val num (JBool b) = (if b then ''true'' else ''false'')"
| "stringify_val num (JInt i) = String_int i"
| "stringify_val num (JNum x) = num x"
| "stringify_val num (JStr s) = quote s"

definition stringify_member :: "(real \<Rightarrow> string) \<Rightarrow> string \<times> jval \<Rightarrow> string" where
  "stringify_member num kv = quote (fst kv) @ '':'' @ stringify_val num (snd kv)"

fun join_comma :: "string list \<Rightarrow> string" where
  "join_comma [] = []"
| "join_comma [x] = x"
| "join_comma (x # y # zs) = x @ '','' @ join_comma (y # zs)"

definition JSON_stringify :: "(real \<Rightarrow> string) \<Rightarrow> jobject \<Rightarrow> string" where
  "JSON_stringify num obj = ''{'' @ join_comma (map (stringify_member num) obj) @ ''}''"

text \<open>
  JavaScript's \<open>a || b\<close> on values that are a string or \<open>undefined\<close> (\<open>None\<close>):
  the left operand when it is truthy (a non-empty string), the right one otherwise.
\<close>

definition truthy :: "string option \<Rightarrow> bool" where
  "truthy v = (case v of None \<Rightarrow> False | Some s \<Rightarrow> s \<noteq> [])"

definition js_or :: "string option \<Rightarrow> string option \<Rightarrow> string option" where
  "js_or a b = (if truthy a then a else b)"

text \<open>The same operator when the right operand is a string literal.\<close>

definition js_or_lit :: "string option \<Rightarrow> string \<Rightarrow> string" where
  "js_or_lit a d = (case a of None \<Rightarrow> d | Some s \<Rightarrow> if s = [] then d else s)"

subsection \<open>JavaScript numbers\<close>

text \<open>
  A JavaScript number is a binary64 value, and every arithmetic operation rounds its exact
  result to the nearest one, ties to the even significand. \<open>binary64 x\<close> is that
  rounding of the real \<open>x\<close>: the value is scaled by powers of two until it lies in
  \<open>[2^52, 2^53)\<close>, where the binary64 numbers are the integers, rounded there to an
  integer and scaled back. At most 1074 doublings are made, which gives the subnormal
  numbers their fixed spacing of \<open>2^-1074\<close>; at most 971 halvings, which covers the
  magnitudes below \<open>2^1024\<close> (overflow to infinity is not modelled).
\<close>

definition round_half_even :: "real \<Rightarrow> int" where
  "round_half_even y =
     (let f = \<lfloor>y\<rfloor>; d = y - of_int f
      in if d < 1 / 2 then f else if 1 / 2 < d then f + 1 else if even f then f else f + 1)"

fun scale_up :: "nat \<Rightarrow> real \<Rightarrow> real" where
  "scale_up 0 x = of_int (round_half_even x)"
| "scale_up (Suc n) x =
     (if 2 ^ 52 \<le> x then of_int (round_half_even x) else scale_up n (2 * x) / 2)"

fun scale_down :: "nat \<Rightarrow> real \<Rightarrow> real" where
  "scale_down 0 x = of_int (round_half_even x)"
| "scale_down (Suc n) x =
     (if x < 2 ^ 53 then of_int (round_half_even x) else 2 * scale_down n (x / 2))"

definition nearest :: "real \<Rightarrow> real" where
  "nearest x = (if x < 2 ^ 52 then scale_up 1074 x else scale_down 971 x)"

definition binary64 :: "real \<Rightarrow> real" where
  "binary64 x = (if x < 0 then - nearest (- x) else nearest x)"

subsection \<open>Prometheus instruments\<close>

text \<open>
  A counter of prom-client holds one count per label set; \<open>inc(labels)\<close> adds one and
  creates the series when the label set is new. A histogram keeps, per label set, the
  observations it was given (their number is its \<open>_count\<close>, their sum its \<open>_sum\<close>, and
  the count of those at most \<open>b\<close> its bucket \<open>le=b\<close>).
\<close>

type_synonym 'k counter = "'k \<rightharpoonup> nat"
type_synonym 'k histogram = "'k \<rightharpoonup> real list"

definition inc :: "'k counter \<Rightarrow> 'k \<Rightarrow> 'k counter" where
  "inc m k = m(k \<mapsto> (case m k of None \<Rightarrow> 1 | Some n \<Rightarrow> n + 1))"

definition observe :: "'k histogram \<Rightarrow> 'k \<Rightarrow> real \<Rightarrow> 'k histogram" where
  "observe m k v = m(k \<mapsto> (case m k of None \<Rightarrow> [v] | Some vs \<Rightarrow> vs @ [v]))"

definition count_of :: "'k counter \<Rightarrow> 'k \<Rightarrow> nat" where
  "count_of m k = (case m k of None \<Rightarrow> 0 | Some n \<Rightarrow> n)"

definition observations :: "'k histogram \<Rightarrow> 'k \<Rightarrow> real list" where
  "observations m k = (case m k of None \<Rightarrow> [] | Some vs \<Rightarrow> vs)"

definition buckets :: "real list" where
  "buckets = map binary64 [0.005, 0.01, 0.025, 0.05, 0.1, 0.25, 0.5, 1, 2.5, 5, 10]"

definition bucket_count :: "'k histogram \<Rightarrow> 'k \<Rightarrow> real \<Rightarrow> nat" where
  "bucket_count m k b = length (filter (\<lambda>v. v \<le> b) (observations m k))"

text \<open>The label set \<open>{method, route, status_code}\<close> of the first two instruments.\<close>

type_synonym labels = "string \<times> string \<times> string"

record registry =
  httpRequests :: "labels counter"
  httpDuration :: "labels histogram"
  successRequests :: "string counter"
  errorRequests :: "string counter"

subsection \<open>Statements that may throw\<close>

text \<open>
  A statement acts on a state and either completes (\<open>None\<close>) or throws an error, of
  which the model keeps the message. The state it leaves behind is kept in both cases,
  as a JavaScript exception leaves the mutations made before it.
\<close>

type_synonym 's action = "'s \<Rightarrow> string option \<times> 's"

definition step :: "('s \<Rightarrow> 's) \<Rightarrow> 's action" where
  "step f s = (None, f s)"

definition throw :: "string \<Rightarrow> 's action" where
  "throw e s = (Some e, s)"

fun run :: "'s action list \<Rightarrow> 's action" where
  "run [] s = (None, s)"
| "run (a # as) s = (case a s of (Some e, s') \<Rightarrow> (Some e, s') | (None, s') \<Rightarrow> run as s')"

text \<open>
  \<open>try { body } catch (err) { handler } finally { fin }\<close>: the handler runs when the
  body throws, \<open>fin\<close> runs on every exit, and an exception of \<open>fin\<close> replaces the
  pending outcome.
\<close>

definition try_catch_finally ::
  "'s action \<Rightarrow> (string \<Rightarrow> 's action) \<Rightarrow> 's action \<Rightarrow> 's action" where
  "try_catch_finally body handler fin s =
     (case body s of
        (None, s1) \<Rightarrow> fin s1
      | (Some err, s1) \<Rightarrow>
          (case handler err s1 of
             (outcome, s2) \<Rightarrow>
               (case fin s2 of (None, s3) \<Rightarrow> (outcome, s3) | (Some e, s3) \<Rightarrow> (Some e, s3))))"

subsection \<open>What a route handler acts on\<close>

datatype SpanStatusCode = UNSET | OK | ERROR

text \<open>The calls made on a span handle, in order.\<close>

datatype span_op = SetStatus SpanStatusCode "string option" | End

datatype level = Info | Warn | Error

text \<open>A line of the process's console: a pino record or a \<open>console\<close> call.\<close>

datatype console_entry =
  Pino level jobject string
| Console_log string
| Console_error string

text \<open>
  What a response carries: a JSON object, the exposition text of a registry, a plain
  text, the page that Express's final handler writes for an unmatched request or an error,
  or nothing.
\<close>

datatype body =
  JsonBody jobject | MetricsBody registry | TextBody string | FinalHandlerPage | EmptyBody

text \<open>
  \<open>sent\<close> is the body the response was sent for, \<open>None\<close> while it has not been sent.
  (For a HEAD request Node sends the headers of that body and leaves the body out.)
\<close>

record response =
  statusCode :: int
  headers :: "(string \<times> string) list"
  sent :: "body option"

text \<open>
  What a handler works with. \<open>fresh\<close> is the verdict of Express's \<open>req.fresh\<close>
  on the headers of the request, for a response with the given body: the request is a
  GET or HEAD whose validators (\<open>If-None-Match\<close>, \<open>If-Modified-Since\<close>) match
  those of that response. It is false of every body for a request with no such header,
  and true of every body for a GET with \<open>If-None-Match: *\<close>.
\<close>

record ctx =
  res :: response
  fresh :: "body \<Rightarrow> bool"
  span :: "(string \<times> span_op list) option"
  logged :: "console_entry list"
  timers :: "int list"

text \<open>
  A response as Express hands it to the first middleware, and the context of a request
  that carries no conditional header.
\<close>

definition new_response :: response where
  "new_response = \<lparr>statusCode = 200, headers = [], sent = None\<rparr>"

definition new_ctx :: ctx where
  "new_ctx = \<lparr>res = new_response, fresh = (\<lambda>b. False), span = None, logged = [], timers = []\<rparr>"

text \<open>\<open>res.status(code)\<close> sets the status code.\<close>

definition res_status :: "int \<Rightarrow> ctx action" where
  "res_status code = step (\<lambda>c. c\<lparr>res := (res c)\<lparr>statusCode := code\<rparr>\<rparr>)"

text \<open>
  \<open>res.json(obj)\<close> sends the object as the body, through \<open>res.send\<close>. When
  the status code is 2xx or 304 and the request is fresh for this response, the status
  code becomes 304; a response with status 204 or 304 is sent with no body. On a
  response that was already sent it throws (Node's ERR_HTTP_HEADERS_SENT).
\<close>

definition res_json :: "jobject \<Rightarrow> ctx action" where
  "res_json obj c =
     (case sent (res c) of
        Some b \<Rightarrow> (Some ''Cannot set headers after they are sent to the client'', c)
      | None \<Rightarrow>
          (let st = statusCode (res c);
               st' = (if ((200 \<le> st \<and> st < 300) \<or> st = 304) \<and> fresh c (JsonBody obj)
                      then 304 else st);
               b = (if st' = 204 \<or> st' = 304 then EmptyBody else JsonBody obj)
           in (None, c\<lparr>res := (res c)\<lparr>statusCode := st', sent := Some b\<rparr>\<rparr>)))"

definition res_set :: "string \<Rightarrow> string \<Rightarrow> ctx action" where
  "res_set name v = step (\<lambda>c. c\<lparr>res := (res c)\<lparr>headers := headers (res c) @ [(name, v)]\<rparr>\<rparr>)"

definition res_end :: "body \<Rightarrow> ctx action" where
  "res_end b = step (\<lambda>c. c\<lparr>res := (res c)\<lparr>sent := Some b\<rparr>\<rparr>)"

definition span_call :: "span_op \<Rightarrow> ctx action" where
  "span_call op =
     step (\<lambda>c. c\<lparr>span := (case span c of None \<Rightarrow> None | Some (n, ops) \<Rightarrow> Some (n, ops @ [op]))\<rparr>)"

definition span_setStatus :: "SpanStatusCode \<Rightarrow> string option \<Rightarrow> ctx action" where
  "span_setStatus code message = span_call (SetStatus code message)"

definition span_end :: "ctx action" where
  "span_end = span_call End"

text \<open>\<open>tracer.startActiveSpan(name, fn)\<close> creates the span and runs \<open>fn\<close> on it.\<close>

definition startActiveSpan :: "string \<Rightarrow> ctx action \<Rightarrow> ctx action" where
  "startActiveSpan name fn c = fn (c\<lparr>span := Some (name, [])\<rparr>)"

definition logger :: "level \<Rightarrow> jobject \<Rightarrow> string \<Rightarrow> ctx action" where
  "logger lvl obj msg = step (\<lambda>c. c\<lparr>logged := logged c @ [Pino lvl obj msg]\<rparr>)"

text \<open>\<open>await new Promise(r => setTimeout(r, ms))\<close>: the handler resumes after the timer.\<close>

definition setTimeout :: "int \<Rightarrow> ctx action" where
  "setTimeout ms = step (\<lambda>c. c\<lparr>timers := timers c @ [ms]\<rparr>)"

subsection \<open>The routes\<close>

definition root_handler :: "ctx action" where
  "root_handler =
     startActiveSpan ''root_route''
       (run [res_json [(''ok'', JBool True), (''message'', JStr ''Hello from demo app'')],
             span_setStatus OK None,
             span_end])"

text \<open>
  \<open>r1\<close> and \<open>r2\<close> are the two draws of \<open>Math.random()\<close>, in the order the handler
  makes them; the product \<open>Math.random() * 500\<close> is a binary64 product and the
  literal \<open>0.1\<close> is the binary64 number nearest to one tenth. The
  \<open>return\<close> of the failure branch leaves the \<open>try\<close> block, so the \<open>finally\<close>
  block runs after it.
\<close>

definition work_handler :: "real \<Rightarrow> real \<Rightarrow> ctx action" where
  "work_handler r1 r2 =
     startActiveSpan ''work_route''
       (try_catch_finally
          (let ms = \<lfloor>binary64 (r1 * 500)\<rfloor> in
             run [setTimeout ms,
                  (if r2 < binary64 (1 / 10) then
                     run [logger Warn [(''path'', JStr ''/work''), (''reason'', JStr ''random_failure'')]
                            ''simulated_error'',
                          span_setStatus ERROR (Some ''Random failure''),
                          span_end,
                          res_status 500,
                          res_json [(''ok'', JBool False), (''error'', JStr ''Random failure occurred'')]]
                   else
                     run [res_json [(''ok'', JBool True), (''simulated_ms'', JInt ms)],
                          span_setStatus OK None])])
          (\<lambda>err. run [span_setStatus ERROR (Some err), throw err])
          span_end)"

definition error_handler :: "ctx action" where
  "error_handler =
     startActiveSpan ''error_route''
       (run [logger Error [(''path'', JStr ''/error'')] ''forced_error'',
             res_status 500,
             res_json [(''ok'', JBool False), (''error'', JStr ''Simulated server error'')],
             span_setStatus ERROR (Some ''Forced error''),
             span_end])"

text \<open>\<open>register.contentType\<close> of prom-client.\<close>

definition contentType :: string where
  "contentType = ''text/plain; version=0.0.4; charset=utf-8''"

definition metrics_handler :: "registry \<Rightarrow> ctx action" where
  "metrics_handler r = run [res_set ''Content-Type'' contentType, res_end (MetricsBody r)]"

subsection \<open>Paths\<close>

text \<open>
  Node's POSIX \<open>path.resolve\<close> (one argument) and \<open>path.join\<close> (two arguments):
  the segments between slashes are normalised, dropping empty segments and \<open>.\<close> and
  resolving \<open>..\<close>; a relative path may keep leading \<open>..\<close> segments, an absolute one
  may not.
\<close>

fun split_on :: "char \<Rightarrow> string \<Rightarrow> string list" where
  "split_on c [] = [[]]"
| "split_on c (x # xs) =
     (if x = c then [] # split_on c xs
      else (case split_on c xs of [] \<Rightarrow> [[x]] | w # ws \<Rightarrow> (x # w) # ws))"

fun join_with :: "char \<Rightarrow> string list \<Rightarrow> string" where
  "join_with c [] = []"
| "join_with c [x] = x"
| "join_with c (x # y # zs) = x @ [c] @ join_with c (y # zs)"

fun normalize_segments :: "bool \<Rightarrow> string list \<Rightarrow> string list \<Rightarrow> string list" where
  "normalize_segments allowAboveRoot acc [] = rev acc"
| "normalize_segments allowAboveRoot acc (g # gs) =
     (if g = [] \<or> g = ''.'' then normalize_segments allowAboveRoot acc gs
      else if g = ''..'' then
        (case acc of
           [] \<Rightarrow> normalize_segments allowAboveRoot (if allowAboveRoot then [''..''] else []) gs
         | a # rest \<Rightarrow>
             if a = ''..'' then normalize_segments allowAboveRoot (''..'' # acc) gs
             else normalize_segments allowAboveRoot rest gs)
      else normalize_segments allowAboveRoot (g # acc) gs)"

definition normalizeString :: "string \<Rightarrow> bool \<Rightarrow> string" where
  "normalizeString p allowAboveRoot = join_with CHR ''/'' (normalize_segments allowAboveRoot [] (split_on CHR ''/'' p))"

definition isAbsolute :: "string \<Rightarrow> bool" where
  "isAbsolute p = (case p of [] \<Rightarrow> False | c # cs \<Rightarrow> c = CHR ''/'')"

definition path_normalize :: "string \<Rightarrow> string" where
  "path_normalize p =
     (if p = [] then ''.''
      else
        (let trailing = (last p = CHR ''/'');
             q = normalizeString p (\<not> isAbsolute p)
         in if q = [] then (if isAbsolute p then ''/'' else if trailing then ''./'' else ''.'')
            else (let q' = (if trailing then q @ ''/'' else q)
                  in if isAbsolute p then ''/'' @ q' else q')))"

definition path_join :: "string \<Rightarrow> string \<Rightarrow> string" where
  "path_join a b =
     (if a = [] \<and> b = [] then ''.''
      else if a = [] then path_normalize b
      else if b = [] then path_normalize a
      else path_normalize (a @ ''/'' @ b))"

text \<open>\<open>dir\<close> is the working directory of the process, an absolute path.\<close>

definition path_resolve :: "string \<Rightarrow> string \<Rightarrow> string" where
  "path_resolve dir p =
     (if p = [] then ''/'' @ normalizeString (dir @ ''/'') False
      else if isAbsolute p then ''/'' @ normalizeString (p @ ''/'') False
      else ''/'' @ normalizeString (dir @ ''/'' @ p @ ''/'') False)"

subsection \<open>The process: inputs, requests and state\<close>

record env =
  LOGS_DIR :: "string option"   \<comment> \<open>\<open>process.env.LOGS_DIR\<close>\<close>
  cwd :: string                 \<comment> \<open>the working directory\<close>
  hr_start :: int               \<comment> \<open>\<open>process.hrtime.bigint()\<close> when the middleware is entered\<close>
  hr_finish :: int              \<comment> \<open>\<open>process.hrtime.bigint()\<close> in the finish callback\<close>
  random1 :: real               \<comment> \<open>first \<open>Math.random()\<close> of the handler\<close>
  random2 :: real               \<comment> \<open>second \<open>Math.random()\<close> of the handler\<close>
  now_iso :: string             \<comment> \<open>\<open>new Date().toISOString()\<close> when the line is written\<close>
  show_num :: "real \<Rightarrow> string"  \<comment> \<open>the text JavaScript gives a number\<close>
  write_error :: "string option" \<comment> \<open>the error of the append to the log file, if it fails\<close>

datatype route = RootRoute | WorkRoute | ErrorRoute | MetricsRoute

text \<open>The patterns the four routes are registered with.\<close>

fun route_path :: "route \<Rightarrow> string" where
  "route_path RootRoute = ''/''"
| "route_path WorkRoute = ''/work''"
| "route_path ErrorRoute = ''/error''"
| "route_path MetricsRoute = ''/metrics''"

text \<open>
  A request as the application sees it: \<open>req_route\<close> is \<open>req.route\<close>, which the
  router sets when one of the routes matches; \<open>body_error\<close> is the HTTP error (status
  and message) that \<open>express.json()\<close> raises for the request's body, if any;
  \<open>req_fresh\<close> is the verdict of \<open>req.fresh\<close> described with \<open>ctx\<close>;
  \<open>req_options\<close> holds the methods of the routes whose path matches the request, which
  the router collects when the request is an OPTIONS that no route handles (for a
  registered path: GET and HEAD).
\<close>

record request =
  req_method :: string
  req_path :: "string option"
  req_route :: "route option"
  body_error :: "(int \<times> string) option"
  req_fresh :: "body \<Rightarrow> bool"
  req_options :: "string list"

record state =
  reg :: registry
  dirs :: "string set"
  files :: "string \<rightharpoonup> string"
  console :: "console_entry list"
  spans :: "(string \<times> span_op list) list"
  uncaught :: "string option"   \<comment> \<open>the uncaught exception that ended the process\<close>

subsection \<open>The log file\<close>

definition logsDir :: "env \<Rightarrow> string" where
  "logsDir env = path_resolve (cwd env) (js_or_lit (LOGS_DIR env) ''/app/logs'')"

definition logFile :: "env \<Rightarrow> string" where
  "logFile env = path_join (logsDir env) ''app.log''"

text \<open>
  Start of the process: the directory is made when it does not exist, with the
  directories above it (option \<open>recursive\<close>), and the stream opened with flag \<open>a\<close>
  creates the file when it does not exist and keeps its content otherwise.
\<close>

fun leading_segments :: "string list \<Rightarrow> string list list" where
  "leading_segments [] = [[]]"
| "leading_segments (g # gs) = [] # map ((#) g) (leading_segments gs)"

text \<open>The absolute path \<open>d\<close> and the directories above it, the root first.\<close>

definition ancestors :: "string \<Rightarrow> string list" where
  "ancestors d =
     map (\<lambda>segs. ''/'' @ join_with CHR ''/'' segs)
       (leading_segments (filter (\<lambda>g. g \<noteq> []) (split_on CHR ''/'' d)))"

definition mkdirSync :: "string \<Rightarrow> state \<Rightarrow> state" where
  "mkdirSync d s = s\<lparr>dirs := dirs s \<union> set (ancestors d)\<rparr>"

definition createWriteStream :: "string \<Rightarrow> state \<Rightarrow> state" where
  "createWriteStream f s =
     s\<lparr>files := (files s)(f \<mapsto> (case files s f of None \<Rightarrow> [] | Some old \<Rightarrow> old))\<rparr>"

definition startup :: "env \<Rightarrow> state \<Rightarrow> state" where
  "startup env s =
     (let s1 = (if logsDir env \<notin> dirs s then mkdirSync (logsDir env) s else s)
      in createWriteStream (logFile env) s1)"

text \<open>
  An \<open>error\<close> event on an emitter: its listeners run; with no listener Node throws the
  error, uncaught. server.js registers no listener on \<open>logStream\<close>.
\<close>

definition emit_error :: "(string \<Rightarrow> state \<Rightarrow> state) list \<Rightarrow> string \<Rightarrow> state \<Rightarrow> state" where
  "emit_error listeners e s =
     (case listeners of
        [] \<Rightarrow> s\<lparr>uncaught := Some e\<rparr>
      | l # ls \<Rightarrow> fold (\<lambda>f. f e) listeners s)"

definition logStream_listeners :: "(string \<Rightarrow> state \<Rightarrow> state) list" where
  "logStream_listeners = []"

definition logStream_write :: "env \<Rightarrow> string \<Rightarrow> state \<Rightarrow> state" where
  "logStream_write env chunk s =
     (case write_error env of
        None \<Rightarrow>
          s\<lparr>files := (files s)(logFile env \<mapsto>
               (case files s (logFile env) of None \<Rightarrow> chunk | Some old \<Rightarrow> old @ chunk))\<rparr>
      | Some e \<Rightarrow> emit_error logStream_listeners e s)"

definition logToFile :: "env \<Rightarrow> jobject \<Rightarrow> state \<Rightarrow> state" where
  "logToFile env message =
     logStream_write env (now_iso env @ '' '' @ JSON_stringify (show_num env) message @ [CHR 0x0A])"

subsection \<open>The middleware for metrics and logs\<close>

text \<open>
  \<open>Number(process.hrtime.bigint() - start) / 1e9\<close>: the difference of the readings
  is an exact integer, its conversion to a number and the division are binary64
  operations.
\<close>

definition delta_of :: "env \<Rightarrow> int \<Rightarrow> real" where
  "delta_of env start = binary64 (binary64 (of_int (hr_finish env - start)) / 1000000000)"

definition route_label :: "request \<Rightarrow> string" where
  "route_label req =
     js_or_lit (js_or (map_option route_path (req_route req)) (req_path req)) ''unknown''"

definition labels_of :: "request \<Rightarrow> response \<Rightarrow> labels" where
  "labels_of req r = (req_method req, route_label req, String_int (statusCode r))"

definition logEntry :: "env \<Rightarrow> request \<Rightarrow> response \<Rightarrow> int \<Rightarrow> jobject" where
  "logEntry env req r start =
     [(''method'', JStr (req_method req)),
      (''route'', JStr (route_label req)),
      (''status'', JInt (statusCode r)),
      (''duration_s'', JNum (delta_of env start))]"

definition logger_info :: "jobject \<Rightarrow> string \<Rightarrow> state \<Rightarrow> state" where
  "logger_info obj msg s = s\<lparr>console := console s @ [Pino Info obj msg]\<rparr>"

text \<open>The statements of the \<open>finish\<close> callback, in the order of the source.\<close>

definition finish_statements ::
  "env \<Rightarrow> request \<Rightarrow> response \<Rightarrow> int \<Rightarrow> (state \<Rightarrow> state) list" where
  "finish_statements env req r start =
     [\<lambda>s. s\<lparr>reg := (reg s)\<lparr>httpRequests := inc (httpRequests (reg s)) (labels_of req r)\<rparr>\<rparr>,
      \<lambda>s. s\<lparr>reg := (reg s)\<lparr>httpDuration :=
             observe (httpDuration (reg s)) (labels_of req r) (delta_of env start)\<rparr>\<rparr>,
      (if statusCode r \<ge> 200 \<and> statusCode r < 400
       then (\<lambda>s. s\<lparr>reg := (reg s)\<lparr>successRequests := inc (successRequests (reg s)) (route_label req)\<rparr>\<rparr>)
       else (\<lambda>s. s\<lparr>reg := (reg s)\<lparr>errorRequests := inc (errorRequests (reg s)) (route_label req)\<rparr>\<rparr>)),
      logger_info (logEntry env req r start) ''request_finished'',
      logToFile env (logEntry env req r start)]"

definition exec :: "(state \<Rightarrow> state) list \<Rightarrow> state \<Rightarrow> state" where
  "exec stmts s = fold (\<lambda>stmt t. stmt t) stmts s"

definition on_finish :: "env \<Rightarrow> request \<Rightarrow> response \<Rightarrow> int \<Rightarrow> state \<Rightarrow> state" where
  "on_finish env req r start = exec (finish_statements env req r start)"

text \<open>A request that matches no route is answered by Express's final handler.\<close>

definition not_found :: "ctx action" where
  "not_found = run [res_status 404, res_end FinalHandlerPage]"

text \<open>
  An OPTIONS request on a path that has routes, none of them for OPTIONS, is answered by
  the router itself: status 200, the collected methods in the \<open>Allow\<close> header and
  in the body.
\<close>

definition options_response :: "string list \<Rightarrow> ctx action" where
  "options_response methods =
     run [res_set ''Allow'' (join_with CHR '','' methods),
          res_end (TextBody (join_with CHR '','' methods))]"

text \<open>The router behind the middleware.\<close>

definition router :: "env \<Rightarrow> request \<Rightarrow> registry \<Rightarrow> ctx action" where
  "router env req r =
     (case req_route req of
        Some RootRoute \<Rightarrow> root_handler
      | Some WorkRoute \<Rightarrow> work_handler (random1 env) (random2 env)
      | Some ErrorRoute \<Rightarrow> error_handler
      | Some MetricsRoute \<Rightarrow> metrics_handler r
      | None \<Rightarrow>
          if req_method req = ''OPTIONS'' \<and> req_options req \<noteq> []
          then options_response (req_options req)
          else not_found)"

text \<open>The context in which the handlers of a request run.\<close>

definition ctx_for :: "request \<Rightarrow> ctx" where
  "ctx_for req = new_ctx\<lparr>fresh := req_fresh req\<rparr>"

text \<open>
  The middleware reads the clock, registers the \<open>finish\<close> callback and calls
  \<open>next()\<close>. The callback runs once the response has been sent. The result holds the
  error a handler threw (if any), the response and the new state.
\<close>

definition middleware :: "env \<Rightarrow> request \<Rightarrow> state \<Rightarrow> string option \<times> response \<times> state" where
  "middleware env req s =
     (let start = hr_start env;
          (thrown, c) = router env req (reg s) (ctx_for req);
          s1 = s\<lparr>console := console s @ logged c,
                 spans := spans s @ (case span c of None \<Rightarrow> [] | Some sp \<Rightarrow> [sp])\<rparr>
      in (thrown, res c,
          (case sent (res c) of
             None \<Rightarrow> s1
           | Some b \<Rightarrow> on_finish env req (res c) start s1)))"

text \<open>
  The application: \<open>express.json()\<close> is registered before the middleware. When it
  raises an error for the body, Express skips every middleware that takes no error
  argument and its default error handler answers with the error's status.
\<close>

definition app :: "env \<Rightarrow> request \<Rightarrow> state \<Rightarrow> string option \<times> response \<times> state" where
  "app env req s =
     (case body_error req of
        Some (status, msg) \<Rightarrow>
          (None, new_response\<lparr>statusCode := status, sent := Some FinalHandlerPage\<rparr>,
           s\<lparr>console := console s @ [Console_error msg]\<rparr>)
      | None \<Rightarrow> middleware env req s)"

subsection \<open>Notions used in the statements\<close>

text \<open>The three components of what the middleware returns for a request.\<close>

definition thrown_by :: "env \<Rightarrow> request \<Rightarrow> state \<Rightarrow> string option" where
  "thrown_by env req s = fst (middleware env req s)"

definition response_of :: "env \<Rightarrow> request \<Rightarrow> state \<Rightarrow> response" where
  "response_of env req s = fst (snd (middleware env req s))"

definition state_after :: "env \<Rightarrow> request \<Rightarrow> state \<Rightarrow> state" where
  "state_after env req s = snd (snd (middleware env req s))"

text \<open>The state when the handler of a request has run and the response is not yet finished.\<close>

definition handled :: "env \<Rightarrow> request \<Rightarrow> state \<Rightarrow> state" where
  "handled env req s =
     (let c = snd (router env req (reg s) (ctx_for req))
      in s\<lparr>console := console s @ logged c,
            spans := spans s @ (case span c of None \<Rightarrow> [] | Some sp \<Rightarrow> [sp])\<rparr>)"

text \<open>The number of \<open>end()\<close> calls a handler made on the span it started.\<close>

definition end_calls :: "ctx \<Rightarrow> nat" where
  "end_calls c = (case span c of None \<Rightarrow> 0 | Some (n, ops) \<Rightarrow> count_list ops End)"




subsection \<open>Sample inputs\<close>

definition sample_env :: env where
  "sample_env =
     \<lparr>LOGS_DIR = None, cwd = ''/app'', hr_start = 1000, hr_finish = 2501000,
      random1 = 1 / 4, random2 = 1 / 20, now_iso = ''2025-01-01T00:00:00.000Z'',
      show_num = (\<lambda>x. ''0.0025''), write_error = None\<rparr>"

definition disk_full_env :: env where
  "disk_full_env = sample_env\<lparr>write_error := Some ''ENOSPC: no space left on device, write''\<rparr>"

definition empty_registry :: registry where
  "empty_registry =
     \<lparr>httpRequests = Map.empty, httpDuration = Map.empty,
      successRequests = Map.empty, errorRequests = Map.empty\<rparr>"

definition initial_state :: state where
  "initial_state =
     \<lparr>reg = empty_registry, dirs = {}, files = Map.empty, console = [], spans = [],
      uncaught = None\<rparr>"

definition started_state :: state where
  "started_state = startup sample_env initial_state"

definition get_request :: "string \<Rightarrow> route option \<Rightarrow> request" where
  "get_request p rt =
     \<lparr>req_method = ''GET'', req_path = Some p, req_route = rt, body_error = None,
      req_fresh = (\<lambda>b. False), req_options = []\<rparr>"

text \<open>A GET of \<open>/work\<close> with the header \<open>If-None-Match: *\<close>.\<close>

definition conditional_get :: request where
  "conditional_get =
     \<lparr>req_method = ''GET'', req_path = Some ''/work'', req_route = Some WorkRoute,
      body_error = None, req_fresh = (\<lambda>b. True), req_options = []\<rparr>"



text \<open>A POST whose body is the text \<open>{\<close>, sent as \<open>application/json\<close>.\<close>

definition malformed_post :: request where
  "malformed_post =
     \<lparr>req_method = ''POST'', req_path = Some ''/'', req_route = None,
      body_error = Some (400, ''Unexpected end of JSON input''),
      req_fresh = (\<lambda>b. False), req_options = []\<rparr>"

section \<open>Properties\<close>

subsection \<open>Rounding to binary64\<close>

lemma round_half_even_error: "\<bar>of_int (round_half_even y) - y\<bar> \<le> 1 / 2"
  unfolding round_half_even_def Let_def by (auto simp: abs_if) linarith+

lemma round_half_even_ge: "of_int m \<le> y \<Longrightarrow> m \<le> round_half_even y"
proof -
  assume "of_int m \<le> y"
  then have "m \<le> \<lfloor>y\<rfloor>" by (simp add: le_floor_iff)
  then show ?thesis by (auto simp: round_half_even_def Let_def)
qed

lemma round_half_even_le: "y \<le> of_int m \<Longrightarrow> round_half_even y \<le> m"
proof -
  assume a: "y \<le> of_int m"
  then have f: "\<lfloor>y\<rfloor> \<le> m" by (simp add: floor_le_iff)
  show ?thesis
  proof (cases "\<lfloor>y\<rfloor> = m")
    case True
    with a have "y = of_int m" by linarith
    then show ?thesis by (simp add: round_half_even_def)
  next
    case False
    with f have "\<lfloor>y\<rfloor> + 1 \<le> m" by simp
    then show ?thesis using f by (auto simp: round_half_even_def Let_def)
  qed
qed

lemma scale_up_numeral:
  "scale_up (numeral k) x =
     (if 2 ^ 52 \<le> x then of_int (round_half_even x) else scale_up (pred_numeral k) (2 * x) / 2)"
  by (simp add: numeral_eq_Suc)

lemma scale_down_numeral:
  "scale_down (numeral k) x =
     (if x < 2 ^ 53 then of_int (round_half_even x) else 2 * scale_down (pred_numeral k) (x / 2))"
  by (simp add: numeral_eq_Suc)

lemmas binary64_eval = binary64_def nearest_def scale_up_numeral scale_down_numeral round_half_even_def Let_def

lemma scale_up_error_half: "\<bar>scale_up n x - x\<bar> \<le> 1 / 2"
proof (induction n arbitrary: x)
  case 0
  then show ?case using round_half_even_error [of x] by simp
next
  case (Suc n)
  show ?case
  proof (cases "2 ^ 52 \<le> x")
    case True
    then show ?thesis using round_half_even_error [of x] by simp
  next
    case False
    from Suc [of "2 * x"] have "\<bar>scale_up n (2 * x) / 2 - x\<bar> \<le> 1 / 4"
      by (simp add: abs_if field_simps split: if_splits)
    with False show ?thesis by simp
  qed
qed

lemma scale_up_error: "x < 2 ^ 53 / 2 ^ k \<Longrightarrow> k \<le> n \<Longrightarrow> \<bar>scale_up n x - x\<bar> \<le> 1 / 2 ^ (k + 1)"
proof (induction n arbitrary: x k)
  case 0
  then show ?case using round_half_even_error [of x] by simp
next
  case (Suc n)
  show ?case
  proof (cases k)
    case 0
    then show ?thesis using scale_up_error_half [of "Suc n" x] by simp
  next
    case (Suc j)
    with Suc.prems have x: "2 * x < 2 ^ 53 / 2 ^ j" and j: "j \<le> n"
      by (simp_all add: field_simps)
    have "2 * x < 2 ^ 53" 
    proof -
      have "(2::real) ^ 53 / 2 ^ j \<le> 2 ^ 53" by (simp add: field_simps)
      with x show ?thesis by linarith
    qed
    then have small: "\<not> 2 ^ 52 \<le> x" by simp
    from Suc.IH [OF x j] have "\<bar>scale_up n (2 * x) / 2 - x\<bar> \<le> 1 / 2 ^ (j + 1) / 2"
      by (simp add: abs_if field_simps split: if_splits)
    with small Suc show ?thesis by simp
  qed
qed

lemma scale_up_rel: "2 ^ 52 / 2 ^ n \<le> x \<Longrightarrow> \<bar>scale_up n x - x\<bar> \<le> x / 2 ^ 53"
proof (induction n arbitrary: x)
  case 0
  with round_half_even_error [of x] show ?case by simp
next
  case (Suc n)
  show ?case
  proof (cases "2 ^ 52 \<le> x")
    case True
    with round_half_even_error [of x] show ?thesis by simp
  next
    case False
    from Suc.prems have "2 ^ 52 / 2 ^ n \<le> 2 * x" by (simp add: field_simps)
    from Suc.IH [OF this] have "\<bar>scale_up n (2 * x) / 2 - x\<bar> \<le> x / 2 ^ 53"
      by (simp add: abs_if field_simps split: if_splits)
    with False show ?thesis by simp
  qed
qed

lemma scale_down_rel:
  "2 ^ 52 \<le> x \<Longrightarrow> x < 2 ^ 53 * 2 ^ n \<Longrightarrow> \<bar>scale_down n x - x\<bar> \<le> x / 2 ^ 53"
proof (induction n arbitrary: x)
  case 0
  with round_half_even_error [of x] show ?case by simp
next
  case (Suc n)
  show ?case
  proof (cases "x < 2 ^ 53")
    case True
    with Suc.prems round_half_even_error [of x] show ?thesis by simp
  next
    case False
    with Suc.prems have "2 ^ 52 \<le> x / 2" "x / 2 < 2 ^ 53 * 2 ^ n" by simp_all
    from Suc.IH [OF this] have "\<bar>2 * scale_down n (x / 2) - x\<bar> \<le> x / 2 ^ 53"
      by (simp add: abs_if field_simps split: if_splits)
    with False show ?thesis by simp
  qed
qed

lemma scale_up_ge_int: "of_int m \<le> x \<Longrightarrow> of_int m \<le> scale_up n x"
proof (induction n arbitrary: x m)
  case 0
  then show ?case using round_half_even_ge [of m x] by simp
next
  case (Suc n)
  from Suc.prems have "of_int (2 * m) \<le> 2 * x" by simp
  from Suc.IH [OF this] Suc.prems round_half_even_ge [of m x] show ?case by simp
qed

lemma scale_up_le_int: "x \<le> of_int m \<Longrightarrow> scale_up n x \<le> of_int m"
proof (induction n arbitrary: x m)
  case 0
  then show ?case using round_half_even_le [of x m] by simp
next
  case (Suc n)
  from Suc.prems have "2 * x \<le> of_int (2 * m)" by simp
  from Suc.IH [OF this] Suc.prems round_half_even_le [of x m] show ?case by simp
qed

lemma scale_down_nonneg: "0 \<le> x \<Longrightarrow> 0 \<le> scale_down n x"
proof (induction n arbitrary: x)
  case 0
  then show ?case using round_half_even_ge [of 0 x] by simp
next
  case (Suc n)
  from Suc.IH [of "x / 2"] Suc.prems round_half_even_ge [of 0 x] show ?case by simp
qed

lemma binary64_nonneg: "0 \<le> x \<Longrightarrow> 0 \<le> binary64 x"
  using scale_up_ge_int [of 0 x 1074] scale_down_nonneg [of x 971]
  by (simp add: binary64_def nearest_def)

lemma binary64_rel_error:
  assumes "1 / 2 ^ 1022 \<le> x" and "x < 2 ^ 1024"
  shows "\<bar>binary64 x - x\<bar> \<le> x / 2 ^ 53"
proof -
  have pos: "0 < x" using assms(1) by (rule less_le_trans [rotated]) simp
  show ?thesis
  proof (cases "x < 2 ^ 52")
    case True
    have "(2::real) ^ 52 / 2 ^ 1074 = 1 / 2 ^ 1022" by simp
    with assms(1) have "2 ^ 52 / 2 ^ 1074 \<le> x" by simp
    from scale_up_rel [OF this] True pos show ?thesis
      by (simp add: binary64_def nearest_def)
  next
    case False
    then have "2 ^ 52 \<le> x" by simp
    moreover have "(2::real) ^ 53 * 2 ^ 971 = 2 ^ 1024" by simp
    with assms(2) have "x < 2 ^ 53 * 2 ^ 971" by simp
    ultimately show ?thesis
      using scale_down_rel [of x 971] False pos by (simp add: binary64_def nearest_def)
  qed
qed

lemma binary64_abs_error:
  assumes "0 \<le> x" and "x < 512"
  shows "\<bar>binary64 x - x\<bar> \<le> 1 / 2 ^ 45"
proof -
  have "(2::real) ^ 53 / 2 ^ 44 = 512" by simp
  with assms(2) have "x < 2 ^ 53 / 2 ^ 44" by simp
  from scale_up_error [OF this, of 1074] assms show ?thesis
    by (simp add: binary64_def nearest_def)
qed

lemma binary64_ge_int:
  "0 \<le> x \<Longrightarrow> x < 2 ^ 52 \<Longrightarrow> of_int m \<le> x \<Longrightarrow> of_int m \<le> binary64 x"
  using scale_up_ge_int [of m x 1074] by (simp add: binary64_def nearest_def)

lemma binary64_le_int:
  "0 \<le> x \<Longrightarrow> x < 2 ^ 52 \<Longrightarrow> x \<le> of_int m \<Longrightarrow> binary64 x \<le> of_int m"
  using scale_up_le_int [of x m 1074] by (simp add: binary64_def nearest_def)

lemma binary64_of_int:
  assumes "0 \<le> n" and "n < 2 ^ 53"
  shows "binary64 (of_int n) = of_int n"
proof (cases "real_of_int n < 2 ^ 52")
  case True
  with assms(1) binary64_ge_int [of "of_int n" n] binary64_le_int [of "of_int n" n]
  show ?thesis by simp
next
  case False
  have "real_of_int n < 2 ^ 53"
    using assms(2) by (metis of_int_less_numeral_power_cancel_iff)
  moreover have "round_half_even (of_int n) = n"
    using round_half_even_ge [of n "of_int n"] round_half_even_le [of "of_int n" n] by simp
  ultimately show ?thesis
    using False assms(1) by (simp add: binary64_def nearest_def numeral_eq_Suc)
qed

lemma binary64_one_tenth: "binary64 (1 / 10) = 3602879701896397 / 36028797018963968"
  by (simp add: binary64_eval)

text \<open>The milliseconds of \<open>/work\<close> and the seconds of a duration.\<close>

lemma ms_range:
  assumes "0 \<le> r" and "r \<le> 1 - 1 / 2 ^ 53"
  shows "0 \<le> \<lfloor>binary64 (r * 500)\<rfloor>" and "\<lfloor>binary64 (r * 500)\<rfloor> < 500"
proof -
  have x: "0 \<le> r * 500" "r * 500 \<le> 500 - 500 / 2 ^ 53" "r * 500 < 512"
    using assms by simp_all
  from binary64_nonneg [OF x(1)] show "0 \<le> \<lfloor>binary64 (r * 500)\<rfloor>" by simp
  from binary64_abs_error [OF x(1) x(3), unfolded abs_le_iff]
  have "binary64 (r * 500) \<le> r * 500 + 1 / 2 ^ 45"
    by linarith
  with x(2) have "binary64 (r * 500) < 500" by simp
  then show "\<lfloor>binary64 (r * 500)\<rfloor> < 500" by (simp add: floor_less_iff)
qed

lemma ms_value:
  assumes "0 \<le> r" and "r \<le> 1 - 1 / 2 ^ 53"
  shows "of_int m \<le> r * 500 \<and> r * 500 < of_int m + 1 - 1 / 2 ^ 45 \<longrightarrow> \<lfloor>binary64 (r * 500)\<rfloor> = m"
    and "\<lfloor>binary64 (r * 500)\<rfloor> = m \<longrightarrow> of_int m - 1 / 2 ^ 45 \<le> r * 500 \<and> r * 500 < of_int m + 1"
proof -
  have x: "0 \<le> r * 500" "r * 500 < 512" "r * 500 < 2 ^ 52"
    using assms by simp_all
  note e = binary64_abs_error [OF x(1) x(2), unfolded abs_le_iff]
  show "of_int m \<le> r * 500 \<and> r * 500 < of_int m + 1 - 1 / 2 ^ 45 \<longrightarrow> \<lfloor>binary64 (r * 500)\<rfloor> = m"
  proof
    assume a: "of_int m \<le> r * 500 \<and> r * 500 < of_int m + 1 - 1 / 2 ^ 45"
    then have "of_int m \<le> binary64 (r * 500)"
      using binary64_ge_int [OF x(1) x(3)] by simp
    moreover from a e have "binary64 (r * 500) < of_int m + 1" by linarith
    ultimately show "\<lfloor>binary64 (r * 500)\<rfloor> = m" by (simp add: floor_eq_iff)
  qed
  show "\<lfloor>binary64 (r * 500)\<rfloor> = m \<longrightarrow> of_int m - 1 / 2 ^ 45 \<le> r * 500 \<and> r * 500 < of_int m + 1"
  proof
    assume "\<lfloor>binary64 (r * 500)\<rfloor> = m"
    then have b: "of_int m \<le> binary64 (r * 500)" "binary64 (r * 500) < of_int m + 1"
      by (simp_all add: floor_eq_iff)
    from b(1) e have lo: "of_int m - 1 / 2 ^ 45 \<le> r * 500" by linarith
    have hi: "r * 500 < of_int m + 1"
    proof (rule ccontr)
      assume "\<not> r * 500 < of_int m + 1"
      then have "of_int (m + 1) \<le> r * 500" by simp
      from binary64_ge_int [OF x(1) x(3) this] b(2) show False by simp
    qed
    from lo hi show "of_int m - 1 / 2 ^ 45 \<le> r * 500 \<and> r * 500 < of_int m + 1" ..
  qed
qed

lemma seconds_error:
  assumes "0 \<le> n" and "n < 2 ^ 64"
  shows "\<bar>binary64 (binary64 (of_int n) / 1000000000) - of_int n / 1000000000\<bar>
           \<le> of_int n / 1000000000 * (1 / 2 ^ 52 + 1 / 2 ^ 106)"
    and "\<bar>binary64 (binary64 (of_int n) / 1000000000) - of_int n / 1000000000\<bar> < 1 / 200000"
proof -
  let ?N = "real_of_int n"
  let ?a = "binary64 ?N"
  let ?d = "binary64 (?a / 1000000000)"
  have N64: "?N < 2 ^ 64"
    using assms(2) by (metis of_int_less_numeral_power_cancel_iff)
  have main: "\<bar>?d - ?N / 1000000000\<bar> \<le> ?N / 1000000000 * (1 / 2 ^ 52 + 1 / 2 ^ 106)"
  proof (cases "n = 0")
    case True
    then show ?thesis by (simp add: binary64_def nearest_def numeral_eq_Suc round_half_even_def)
  next
    case False
    with assms(1) have N1: "1 \<le> ?N" by simp
    have "1 / 2 ^ 1022 \<le> (1::real)" by simp
    with N1 have lo: "1 / 2 ^ 1022 \<le> ?N" by linarith
    have "(2::real) ^ 64 \<le> 2 ^ 1024" by simp
    with N64 have hi: "?N < 2 ^ 1024" by linarith
    from binary64_rel_error [OF lo hi, unfolded abs_le_iff]
    have e1: "?a \<le> ?N + ?N / 2 ^ 53" "?N - ?N / 2 ^ 53 \<le> ?a"
      by linarith+
    from e1(2) N1 have a_lo: "1 / 2 \<le> ?a" by simp
    have "1 / 2 ^ 1022 \<le> (1 / 2 / 1000000000 :: real)" by simp
    with a_lo have lo2: "1 / 2 ^ 1022 \<le> ?a / 1000000000" by simp
    from e1(1) N64 have "?a < 2 ^ 65" by simp
    moreover have "(2::real) ^ 65 \<le> 2 ^ 1024 * 1000000000" by simp
    ultimately have hi2: "?a / 1000000000 < 2 ^ 1024" by simp
    from binary64_rel_error [OF lo2 hi2, unfolded abs_le_iff]
    have e2: "?d \<le> ?a / 1000000000 + ?a / 1000000000 / 2 ^ 53"
      "?a / 1000000000 - ?a / 1000000000 / 2 ^ 53 \<le> ?d"
      by linarith+
    have "?d - ?N / 1000000000 \<le> ?N / 1000000000 * (1 / 2 ^ 52 + 1 / 2 ^ 106)"
      using e1 e2 N1 by (simp add: field_simps)
    moreover have "?N / 1000000000 - ?d \<le> ?N / 1000000000 * (1 / 2 ^ 52 + 1 / 2 ^ 106)"
      using e1 e2 N1 by (simp add: field_simps)
    ultimately show ?thesis
      unfolding abs_le_iff by linarith
  qed
  then show "\<bar>?d - ?N / 1000000000\<bar> \<le> ?N / 1000000000 * (1 / 2 ^ 52 + 1 / 2 ^ 106)" .
  have "?N / 1000000000 * (1 / 2 ^ 52 + 1 / 2 ^ 106) < 1 / 200000"
    using N64 by (simp add: field_simps)
  with main show "\<bar>?d - ?N / 1000000000\<bar> < 1 / 200000"
    by linarith
qed

lemma seconds_error_exact:
  assumes "0 \<le> n" and "n < 2 ^ 53"
  shows "\<bar>binary64 (binary64 (of_int n) / 1000000000) - of_int n / 1000000000\<bar>
           \<le> of_int n / 1000000000 / 2 ^ 53"
proof (cases "n = 0")
  case True
  then show ?thesis
    by (simp add: binary64_def nearest_def numeral_eq_Suc round_half_even_def)
next
  case False
  with assms(1) have N1: "1 \<le> real_of_int n" by simp
  have N53: "real_of_int n < 2 ^ 53"
    using assms(2) by (metis of_int_less_numeral_power_cancel_iff)
  have "1 / 2 ^ 1022 \<le> (1 / 1000000000 :: real)" by simp
  with N1 have lo: "1 / 2 ^ 1022 \<le> real_of_int n / 1000000000" by simp
  have "(2::real) ^ 53 \<le> 2 ^ 1024 * 1000000000" by simp
  with N53 have hi: "real_of_int n / 1000000000 < 2 ^ 1024" by simp
  from binary64_rel_error [OF lo hi] show ?thesis
    by (simp only: binary64_of_int [OF assms])
qed

subsection \<open>The handlers of a request\<close>

lemmas effect_defs =
  step_def throw_def try_catch_finally_def res_status_def res_json_def res_set_def res_end_def
  span_call_def span_setStatus_def span_end_def startActiveSpan_def logger_def setTimeout_def
  new_ctx_def new_response_def

lemma new_ctx_unconditional: "new_ctx = new_ctx\<lparr>fresh := (\<lambda>b. False)\<rparr>"
  by (simp add: new_ctx_def)

lemma root_handler_ctx:
  "root_handler (new_ctx\<lparr>fresh := f\<rparr>) =
     (None, \<lparr>res = (if f (JsonBody [(''ok'', JBool True), (''message'', JStr ''Hello from demo app'')])
                      then \<lparr>statusCode = 304, headers = [], sent = Some EmptyBody\<rparr>
                      else \<lparr>statusCode = 200, headers = [],
                            sent = Some (JsonBody [(''ok'', JBool True), (''message'', JStr ''Hello from demo app'')])\<rparr>),
              fresh = f,
              span = Some (''root_route'', [SetStatus OK None, End]),
              logged = [], timers = []\<rparr>)"
  by (simp add: root_handler_def effect_defs Let_def)

lemma error_handler_ctx:
  "error_handler (new_ctx\<lparr>fresh := f\<rparr>) =
     (None, \<lparr>res = \<lparr>statusCode = 500, headers = [],
                        sent = Some (JsonBody [(''ok'', JBool False), (''error'', JStr ''Simulated server error'')])\<rparr>,
              fresh = f,
              span = Some (''error_route'', [SetStatus ERROR (Some ''Forced error''), End]),
              logged = [Pino Error [(''path'', JStr ''/error'')] ''forced_error''], timers = []\<rparr>)"
  by (simp add: error_handler_def effect_defs Let_def)

lemma work_handler_failure:
  assumes "r2 < binary64 (1 / 10)"
  shows "work_handler r1 r2 (new_ctx\<lparr>fresh := f\<rparr>) =
     (None, \<lparr>res = \<lparr>statusCode = 500, headers = [],
                        sent = Some (JsonBody [(''ok'', JBool False), (''error'', JStr ''Random failure occurred'')])\<rparr>,
              fresh = f,
              span = Some (''work_route'', [SetStatus ERROR (Some ''Random failure''), End, End]),
              logged = [Pino Warn [(''path'', JStr ''/work''), (''reason'', JStr ''random_failure'')] ''simulated_error''],
              timers = [\<lfloor>binary64 (r1 * 500)\<rfloor>]\<rparr>)"
  using assms by (simp add: work_handler_def effect_defs Let_def)

lemma work_handler_success:
  assumes "\<not> r2 < binary64 (1 / 10)"
  shows "work_handler r1 r2 (new_ctx\<lparr>fresh := f\<rparr>) =
     (None, \<lparr>res = (if f (JsonBody [(''ok'', JBool True), (''simulated_ms'', JInt \<lfloor>binary64 (r1 * 500)\<rfloor>)])
                      then \<lparr>statusCode = 304, headers = [], sent = Some EmptyBody\<rparr>
                      else \<lparr>statusCode = 200, headers = [],
                            sent = Some (JsonBody [(''ok'', JBool True),
                                                   (''simulated_ms'', JInt \<lfloor>binary64 (r1 * 500)\<rfloor>)])\<rparr>),
              fresh = f,
              span = Some (''work_route'', [SetStatus OK None, End]),
              logged = [], timers = [\<lfloor>binary64 (r1 * 500)\<rfloor>]\<rparr>)"
  using assms by (simp add: work_handler_def effect_defs Let_def)

lemma work_handler_timers:
  "timers (snd (work_handler r1 r2 (new_ctx\<lparr>fresh := f\<rparr>))) = [\<lfloor>binary64 (r1 * 500)\<rfloor>]"
  by (cases "r2 < binary64 (1 / 10)") (simp_all add: work_handler_failure work_handler_success)

lemma metrics_handler_ctx:
  "metrics_handler r (new_ctx\<lparr>fresh := f\<rparr>) =
     (None, \<lparr>res = \<lparr>statusCode = 200, headers = [(''Content-Type'', contentType)],
                        sent = Some (MetricsBody r)\<rparr>,
              fresh = f, span = None, logged = [], timers = []\<rparr>)"
  by (simp add: metrics_handler_def effect_defs)

lemma not_found_ctx:
  "not_found (new_ctx\<lparr>fresh := f\<rparr>) =
     (None, \<lparr>res = \<lparr>statusCode = 404, headers = [], sent = Some FinalHandlerPage\<rparr>,
              fresh = f, span = None, logged = [], timers = []\<rparr>)"
  by (simp add: not_found_def effect_defs)

lemma options_response_ctx:
  "options_response ms (new_ctx\<lparr>fresh := f\<rparr>) =
     (None, \<lparr>res = \<lparr>statusCode = 200, headers = [(''Allow'', join_with CHR '','' ms)],
                        sent = Some (TextBody (join_with CHR '','' ms))\<rparr>,
              fresh = f, span = None, logged = [], timers = []\<rparr>)"
  by (simp add: options_response_def effect_defs)

text \<open>On a fresh response every route completes without throwing and sends a response.\<close>

lemma router_completes:
  "\<exists>(c::ctx) b. router env req r (ctx_for req) = (None, c) \<and> sent (res c) = Some b"
proof (cases "req_route req")
  case None
  then show ?thesis
    by (simp add: router_def ctx_for_def not_found_ctx options_response_ctx)
next
  case (Some rt)
  show ?thesis
  proof (cases rt)
    case RootRoute
    with Some show ?thesis by (simp add: router_def ctx_for_def root_handler_ctx)
  next
    case WorkRoute
    with Some show ?thesis
      by (cases "random2 env < binary64 (1 / 10)")
         (simp_all add: router_def ctx_for_def work_handler_failure work_handler_success)
  next
    case ErrorRoute
    with Some show ?thesis by (simp add: router_def ctx_for_def error_handler_ctx)
  next
    case MetricsRoute
    with Some show ?thesis by (simp add: router_def ctx_for_def metrics_handler_ctx)
  qed
qed

subsection \<open>The finish callback, field by field\<close>

lemmas finish_defs =
  on_finish_def exec_def finish_statements_def logger_info_def logToFile_def logStream_write_def
  emit_error_def logStream_listeners_def

lemma on_finish_reg:
  "reg (on_finish env req r start s) =
     (reg s)\<lparr>httpRequests := inc (httpRequests (reg s)) (labels_of req r),
             httpDuration := observe (httpDuration (reg s)) (labels_of req r) (delta_of env start),
             successRequests := (if 200 \<le> statusCode r \<and> statusCode r < 400
                                 then inc (successRequests (reg s)) (route_label req)
                                 else successRequests (reg s)),
             errorRequests := (if 200 \<le> statusCode r \<and> statusCode r < 400
                               then errorRequests (reg s)
                               else inc (errorRequests (reg s)) (route_label req))\<rparr>"
  by (simp add: finish_defs split: option.splits)

lemma on_finish_console:
  "console (on_finish env req r start s) =
     console s @ [Pino Info (logEntry env req r start) ''request_finished'']"
  by (simp add: finish_defs split: option.splits)

lemma on_finish_spans: "spans (on_finish env req r start s) = spans s"
  by (simp add: finish_defs split: option.splits)

lemma on_finish_dirs: "dirs (on_finish env req r start s) = dirs s"
  by (simp add: finish_defs split: option.splits)

lemma on_finish_files:
  "files (on_finish env req r start s) =
     (case write_error env of
        None \<Rightarrow> (files s)(logFile env \<mapsto>
                   (case files s (logFile env) of None \<Rightarrow> [] | Some old \<Rightarrow> old) @
                   now_iso env @ '' '' @ JSON_stringify (show_num env) (logEntry env req r start) @ [CHR 0x0A])
      | Some e \<Rightarrow> files s)"
  by (simp add: finish_defs split: option.splits)

lemma on_finish_uncaught:
  "uncaught (on_finish env req r start s) =
     (case write_error env of None \<Rightarrow> uncaught s | Some e \<Rightarrow> Some e)"
  by (simp add: finish_defs split: option.splits)

lemma count_of_inc: "count_of (inc m k) k' = count_of m k' + (if k' = k then 1 else 0)"
  by (simp add: count_of_def inc_def split: option.splits)

lemma observations_observe:
  "observations (observe m k v) k' = observations m k' @ (if k' = k then [v] else [])"
  by (simp add: observations_def observe_def split: option.splits)

subsection \<open>The middleware in terms of the handler and the callback\<close>

lemma middleware_unfold:
  assumes "router env req (reg s) (ctx_for req) = (None, c)" and "sent (res c) = Some b"
  shows "thrown_by env req s = None"
    and "response_of env req s = res c"
    and "handled env req s =
           s\<lparr>console := console s @ logged c,
             spans := spans s @ (case span c of None \<Rightarrow> [] | Some sp \<Rightarrow> [sp])\<rparr>"
    and "state_after env req s =
           on_finish env req (res c) (hr_start env) (handled env req s)"
  using assms
  by (simp_all add: thrown_by_def response_of_def state_after_def handled_def middleware_def Let_def)

lemma middleware_result:
  fixes env :: env and req :: request and s :: state
  shows "thrown_by env req s = None"
    and "sent (response_of env req s) \<noteq> None"
    and "state_after env req s =
           on_finish env req (response_of env req s) (hr_start env) (handled env req s)"
    and "reg (handled env req s) = reg s"
    and "files (handled env req s) = files s"
    and "dirs (handled env req s) = dirs s"
    and "uncaught (handled env req s) = uncaught s"
proof -
  obtain c :: ctx and b where c: "router env req (reg s) (ctx_for req) = (None, c)" "sent (res c) = Some b"
    using router_completes by blast
  note u = middleware_unfold [OF c]
  show "thrown_by env req s = None" by (rule u(1))
  show "sent (response_of env req s) \<noteq> None" using u(2) c(2) by simp
  show "state_after env req s =
           on_finish env req (response_of env req s) (hr_start env) (handled env req s)"
    using u(2) u(4) by simp
  show "reg (handled env req s) = reg s" "files (handled env req s) = files s"
    "dirs (handled env req s) = dirs s" "uncaught (handled env req s) = uncaught s"
    by (simp_all add: handled_def Let_def)
qed

lemma middleware_records:
  fixes env :: env and req :: request and s :: state
  shows "reg (state_after env req s) =
      (reg s)\<lparr>httpRequests := inc (httpRequests (reg s)) (labels_of req (response_of env req s)),
             httpDuration := observe (httpDuration (reg s)) (labels_of req (response_of env req s))
                               (delta_of env (hr_start env)),
             successRequests := (if 200 \<le> statusCode (response_of env req s) \<and> statusCode (response_of env req s) < 400
                                 then inc (successRequests (reg s)) (route_label req)
                                 else successRequests (reg s)),
             errorRequests := (if 200 \<le> statusCode (response_of env req s) \<and> statusCode (response_of env req s) < 400
                               then errorRequests (reg s)
                               else inc (errorRequests (reg s)) (route_label req))\<rparr>"
    and "last (console (state_after env req s)) =
           Pino Info (logEntry env req (response_of env req s) (hr_start env)) ''request_finished''"
    and "files (state_after env req s) =
     (case write_error env of
        None \<Rightarrow> (files s)(logFile env \<mapsto>
                   (case files s (logFile env) of None \<Rightarrow> [] | Some old \<Rightarrow> old) @
                   now_iso env @ '' '' @
                   JSON_stringify (show_num env) (logEntry env req (response_of env req s) (hr_start env)) @
                   [CHR 0x0A])
      | Some e \<Rightarrow> files s)"
    and "uncaught (state_after env req s) =
     (case write_error env of None \<Rightarrow> uncaught s | Some e \<Rightarrow> Some e)"
  unfolding middleware_result(3)
  by (simp_all add: on_finish_reg on_finish_console on_finish_files on_finish_uncaught
        middleware_result(4,5,7) split: option.splits)

lemma route_label_matched: "req_route req = Some rt \<Longrightarrow> route_label req = route_path rt"
  by (cases rt) (simp_all add: route_label_def js_or_def js_or_lit_def truthy_def)


lemma String_int_status:
  "String_int 200 = ''200''" "String_int 304 = ''304''" "String_int 400 = ''400''"
  "String_int 404 = ''404''" "String_int 500 = ''500''"
  by (simp_all add: String_int_def digits10.simps digit_def)

lemma middleware_error_route:
  assumes "req_route req = Some ErrorRoute"
  shows "response_of env req s =
           \<lparr>statusCode = 500, headers = [],
            sent = Some (JsonBody [(''ok'', JBool False), (''error'', JStr ''Simulated server error'')])\<rparr>"
    and "state_after env req s =
           on_finish env req (response_of env req s) (hr_start env)
             (s\<lparr>console := console s @ [Pino Error [(''path'', JStr ''/error'')] ''forced_error''],
                spans := spans s @ [(''error_route'', [SetStatus ERROR (Some ''Forced error''), End])]\<rparr>)"
proof -
  have r: "router env req (reg s) (ctx_for req) = error_handler (new_ctx\<lparr>fresh := req_fresh req\<rparr>)"
    using assms by (simp add: router_def ctx_for_def)
  note u = middleware_unfold [OF r [unfolded error_handler_ctx]]
  show "response_of env req s =
           \<lparr>statusCode = 500, headers = [],
            sent = Some (JsonBody [(''ok'', JBool False), (''error'', JStr ''Simulated server error'')])\<rparr>"
    using u(2) by simp
  then show "state_after env req s =
           on_finish env req (response_of env req s) (hr_start env)
             (s\<lparr>console := console s @ [Pino Error [(''path'', JStr ''/error'')] ''forced_error''],
                spans := spans s @ [(''error_route'', [SetStatus ERROR (Some ''Forced error''), End])]\<rparr>)"
    using u(3) u(4) by simp
qed

lemma middleware_work_route:
  assumes "req_route req = Some WorkRoute"
  shows "random2 env < binary64 (1 / 10) \<Longrightarrow> response_of env req s =
           \<lparr>statusCode = 500, headers = [],
            sent = Some (JsonBody [(''ok'', JBool False), (''error'', JStr ''Random failure occurred'')])\<rparr>"
    and "random2 env < binary64 (1 / 10) \<Longrightarrow> spans (state_after env req s) =
           spans s @ [(''work_route'', [SetStatus ERROR (Some ''Random failure''), End, End])]"
    and "\<not> random2 env < binary64 (1 / 10) \<Longrightarrow> response_of env req s =
           (if req_fresh req (JsonBody [(''ok'', JBool True),
                                         (''simulated_ms'', JInt \<lfloor>binary64 (random1 env * 500)\<rfloor>)])
            then \<lparr>statusCode = 304, headers = [], sent = Some EmptyBody\<rparr>
            else \<lparr>statusCode = 200, headers = [],
                  sent = Some (JsonBody [(''ok'', JBool True),
                                         (''simulated_ms'', JInt \<lfloor>binary64 (random1 env * 500)\<rfloor>)])\<rparr>)"
    and "\<not> random2 env < binary64 (1 / 10) \<Longrightarrow> spans (state_after env req s) =
           spans s @ [(''work_route'', [SetStatus OK None, End])]"
proof -
  have r: "router env req (reg s) (ctx_for req) =
             work_handler (random1 env) (random2 env) (new_ctx\<lparr>fresh := req_fresh req\<rparr>)"
    using assms by (simp add: router_def ctx_for_def)
  {
    assume f: "random2 env < binary64 (1 / 10)"
    note u = middleware_unfold [OF r [unfolded work_handler_failure [OF f]]]
    show "response_of env req s =
           \<lparr>statusCode = 500, headers = [],
            sent = Some (JsonBody [(''ok'', JBool False), (''error'', JStr ''Random failure occurred'')])\<rparr>"
      using u(2) by simp
    show "spans (state_after env req s) =
           spans s @ [(''work_route'', [SetStatus ERROR (Some ''Random failure''), End, End])]"
      using u(3) u(4) by (simp add: on_finish_spans)
  }
  {
    assume f: "\<not> random2 env < binary64 (1 / 10)"
    have b: "\<exists>b. sent (res (snd (work_handler (random1 env) (random2 env) (new_ctx\<lparr>fresh := req_fresh req\<rparr>)))) = Some b"
      by (simp add: work_handler_success [OF f])
    then obtain b where b: "sent (res (snd (work_handler (random1 env) (random2 env) (new_ctx\<lparr>fresh := req_fresh req\<rparr>)))) = Some b"
      by blast
    have r': "router env req (reg s) (ctx_for req) =
                (None, snd (work_handler (random1 env) (random2 env) (new_ctx\<lparr>fresh := req_fresh req\<rparr>)))"
      by (simp add: r work_handler_success [OF f])
    note u = middleware_unfold [OF r' b]
    show "response_of env req s =
           (if req_fresh req (JsonBody [(''ok'', JBool True),
                                         (''simulated_ms'', JInt \<lfloor>binary64 (random1 env * 500)\<rfloor>)])
            then \<lparr>statusCode = 304, headers = [], sent = Some EmptyBody\<rparr>
            else \<lparr>statusCode = 200, headers = [],
                  sent = Some (JsonBody [(''ok'', JBool True),
                                         (''simulated_ms'', JInt \<lfloor>binary64 (random1 env * 500)\<rfloor>)])\<rparr>)"
      using u(2) by (simp add: work_handler_success [OF f])
    show "spans (state_after env req s) =
           spans s @ [(''work_route'', [SetStatus OK None, End])]"
      using u(3) u(4) by (simp add: on_finish_spans work_handler_success [OF f])
  }
qed

lemma middleware_root_route:
  assumes "req_route req = Some RootRoute"
  shows "response_of env req s =
           (if req_fresh req (JsonBody [(''ok'', JBool True), (''message'', JStr ''Hello from demo app'')])
            then \<lparr>statusCode = 304, headers = [], sent = Some EmptyBody\<rparr>
            else \<lparr>statusCode = 200, headers = [],
                  sent = Some (JsonBody [(''ok'', JBool True), (''message'', JStr ''Hello from demo app'')])\<rparr>)"
    and "handled env req s =
           s\<lparr>console := console s, spans := spans s @ [(''root_route'', [SetStatus OK None, End])]\<rparr>"
proof -
  let ?c = "snd (root_handler (new_ctx\<lparr>fresh := req_fresh req\<rparr>))"
  have r: "router env req (reg s) (ctx_for req) = (None, ?c)"
    using assms by (simp add: router_def ctx_for_def root_handler_ctx)
  have b: "sent (res ?c) = Some (if req_fresh req (JsonBody [(''ok'', JBool True), (''message'', JStr ''Hello from demo app'')])
                                 then EmptyBody
                                 else JsonBody [(''ok'', JBool True), (''message'', JStr ''Hello from demo app'')])"
    by (simp add: root_handler_ctx)
  note u = middleware_unfold [OF r b]
  show "response_of env req s =
           (if req_fresh req (JsonBody [(''ok'', JBool True), (''message'', JStr ''Hello from demo app'')])
            then \<lparr>statusCode = 304, headers = [], sent = Some EmptyBody\<rparr>
            else \<lparr>statusCode = 200, headers = [],
                  sent = Some (JsonBody [(''ok'', JBool True), (''message'', JStr ''Hello from demo app'')])\<rparr>)"
    using u(2) by (simp add: root_handler_ctx)
  show "handled env req s =
           s\<lparr>console := console s, spans := spans s @ [(''root_route'', [SetStatus OK None, End])]\<rparr>"
    using u(3) by (simp add: root_handler_ctx)
qed


subsection \<open>Paths of the log directory and the log file\<close>













lemma logsDir_default:
  "LOGS_DIR env = None \<or> LOGS_DIR env = Some [] \<Longrightarrow> logsDir env = ''/app/logs''"
  by (auto simp: logsDir_def js_or_lit_def path_resolve_def isAbsolute_def normalizeString_def)

lemma logFile_default:
  "LOGS_DIR env = None \<or> LOGS_DIR env = Some [] \<Longrightarrow> logFile env = ''/app/logs/app.log''"
  by (simp add: logFile_def logsDir_default path_join_def path_normalize_def isAbsolute_def normalizeString_def)











lemma started_state_eq:
  "started_state =
     \<lparr>reg = empty_registry, dirs = {''/'', ''/app'', ''/app/logs''},
      files = [''/app/logs/app.log'' \<mapsto> []],
      console = [], spans = [], uncaught = None\<rparr>"
proof -
  have l: "LOGS_DIR sample_env = None \<or> LOGS_DIR sample_env = Some []"
    by (simp add: sample_env_def)
  have a: "set (ancestors ''/app/logs'') = {''/'', ''/app'', ''/app/logs''}"
    by (simp add: ancestors_def)
  show ?thesis
    by (simp add: started_state_def startup_def logsDir_default [OF l] logFile_default [OF l]
          mkdirSync_def createWriteStream_def initial_state_def a)
qed


subsection \<open>The text of a log line\<close>







lemma JSON_stringify_logEntry:
  "JSON_stringify (show_num env) (logEntry env req r start) =
     ''{'' @ quote ''method'' @ '':'' @ quote (req_method req) @ '','' @
     quote ''route'' @ '':'' @ quote (route_label req) @ '','' @
     quote ''status'' @ '':'' @ String_int (statusCode r) @ '','' @
     quote ''duration_s'' @ '':'' @ show_num env (delta_of env start) @ ''}''"
  by (simp add: JSON_stringify_def logEntry_def stringify_member_def)








subsection \<open>Spans are ended once (C1)\<close>

text \<open>
  C1 says that in every route handler each started span receives exactly one \<open>end()\<close>
  on every exit path, the random-failure branch of \<open>/work\<close> included, through a
  cleanup construct. In \<open>/work\<close> the failure branch calls \<open>span.end()\<close> itself and
  then returns from inside the \<open>try\<close> block, whose \<open>finally\<close> block calls
  \<open>span.end()\<close> again: with a second draw below 0.1 the span receives two \<open>end()\<close>
  calls.
\<close>

theorem work_failure_branch_ends_span_twice:
  "end_calls (snd (work_handler (1 / 4) (1 / 20) new_ctx)) = 2"
proof -
  have "work_handler (1 / 4) (1 / 20) new_ctx =
          work_handler (1 / 4) (1 / 20) (new_ctx\<lparr>fresh := (\<lambda>b. False)\<rparr>)"
    using new_ctx_unconditional by simp
  moreover have "(1 / 20 :: real) < binary64 (1 / 10)"
    by (simp add: binary64_one_tenth)
  ultimately show ?thesis
    by (simp add: work_handler_failure end_calls_def)
qed

text \<open>
  The handlers of \<open>/\<close> and \<open>/error\<close> have no \<open>try\<close> block: were \<open>res.json\<close> to
  throw in them, the span would receive no \<open>end()\<close> at all.
\<close>

lemma root_handler_throw_leaves_span_open:
  "root_handler (new_ctx\<lparr>res := new_response\<lparr>sent := Some FinalHandlerPage\<rparr>\<rparr>) =
     (Some ''Cannot set headers after they are sent to the client'',
      new_ctx\<lparr>res := new_response\<lparr>sent := Some FinalHandlerPage\<rparr>, span := Some (''root_route'', [])\<rparr>)"
  by (simp add: root_handler_def effect_defs)

subsection \<open>Success and error counters (C2)\<close>



subsection \<open>Requests that are never recorded (C3)\<close>

text \<open>
  C3 says that every completed HTTP request produces exactly one increment of the request
  counter, one histogram observation and one log line, and that no completed request is
  recorded zero times. \<open>express.json()\<close> is registered before the middleware: a
  request whose JSON body it rejects is answered (status 400) without the middleware
  ever running, so that nothing is counted, observed or logged for it.
\<close>

theorem rejected_body_is_not_recorded:
  "statusCode (fst (snd (app sample_env malformed_post started_state))) = 400 \<and>
   sent (fst (snd (app sample_env malformed_post started_state))) \<noteq> None \<and>
   reg (snd (snd (app sample_env malformed_post started_state))) = empty_registry \<and>
   files (snd (snd (app sample_env malformed_post started_state))) ''/app/logs/app.log'' = Some []"
  by (simp add: app_def malformed_post_def started_state_eq new_response_def)

text \<open>A request that does reach the middleware is recorded once.\<close>

lemma request_recorded_once:
  fixes env :: env and req :: request and s :: state
  shows "count_of (httpRequests (reg (state_after env req s))) l =
           count_of (httpRequests (reg s)) l + (if l = labels_of req (response_of env req s) then 1 else 0)"
    and "observations (httpDuration (reg (state_after env req s))) l =
           observations (httpDuration (reg s)) l @
           (if l = labels_of req (response_of env req s) then [delta_of env (hr_start env)] else [])"
  by (simp_all add: middleware_records(1) count_of_inc observations_observe)

subsection \<open>Order within the finish callback (C4)\<close>



subsection \<open>The route \<open>/work\<close> (C5)\<close>

text \<open>
  C5 says that a GET to \<open>/work\<close> that does not take the failure branch is answered
  with status 200 and the body \<open>{ok: true, simulated_ms: m}\<close>. The body is sent with
  \<open>res.json\<close>, which answers a conditional GET that is fresh for this response with
  status 304 and no body: a GET of \<open>/work\<close> with \<open>If-None-Match: *\<close> whose second
  draw is \<open>1/2\<close> is answered 304.
\<close>

theorem work_route_conditional_get_counterexample:
  "req_method conditional_get = ''GET'' \<and>
   req_route conditional_get = Some WorkRoute \<and>
   \<not> random2 (sample_env\<lparr>random2 := 1 / 2\<rparr>) < binary64 (1 / 10) \<and>
   statusCode (response_of (sample_env\<lparr>random2 := 1 / 2\<rparr>) conditional_get initial_state) = 304 \<and>
   sent (response_of (sample_env\<lparr>random2 := 1 / 2\<rparr>) conditional_get initial_state) = Some EmptyBody"
proof -
  have q: "req_route conditional_get = Some WorkRoute" "req_method conditional_get = ''GET''"
    by (simp_all add: conditional_get_def)
  have f: "\<not> random2 (sample_env\<lparr>random2 := 1 / 2\<rparr>) < binary64 (1 / 10)"
    by (simp add: sample_env_def binary64_one_tenth)
  have c: "req_fresh conditional_get b" for b
    by (simp add: conditional_get_def)
  from middleware_work_route(3) [OF q(1) f, of initial_state] q f show ?thesis
    by (simp add: c)
qed

text \<open>
  C5, amended: a request dispatched to \<open>/work\<close> sleeps \<open>ms\<close> milliseconds, where
  \<open>ms\<close> is the integer part of the binary64 product of the first draw and 500. For a
  draw in \<open>[0, 1 - 2^-53]\<close> (the numbers \<open>Math.random\<close> returns lie there) \<open>ms\<close>
  is in \<open>[0, 500)\<close>, and it is the integer part of the exact product up to the
  rounding of the product: \<open>ms = m\<close> for every draw \<open>r1\<close> with
  \<open>m \<le> 500 r1 < m + 1 - 2^-45\<close>, and only for draws with
  \<open>m - 2^-45 \<le> 500 r1 < m + 1\<close>, intervals of the same length for each \<open>m\<close>.
  The failure branch is taken when the second draw is below the binary64 number
  \<open>0.1\<close>, which is \<open>3602879701896397 / 2^55\<close> and lies above one tenth by less
  than \<open>2^-57\<close>. In that branch the request is answered with status 500 and the body
  \<open>{ok: false, error: "Random failure occurred"}\<close> and its span is given the status
  ERROR with the message \<open>Random failure\<close> (and ended twice). Otherwise its span is
  given the status OK and it is answered with status 200 and the body
  \<open>{ok: true, simulated_ms: ms}\<close>, with the same \<open>ms\<close>, unless the request is
  conditional and fresh for that response: then it is answered 304, with no body.
\<close>

theorem work_route_behaviour:
  fixes env :: env and req :: request and s :: state
  assumes "req_route req = Some WorkRoute"
    and "0 \<le> random1 env" and "random1 env \<le> 1 - 1 / 2 ^ 53"
  shows "0 \<le> \<lfloor>binary64 (random1 env * 500)\<rfloor> \<and> \<lfloor>binary64 (random1 env * 500)\<rfloor> < 500
    \<and> (\<forall>m. (of_int m \<le> random1 env * 500 \<and> random1 env * 500 < of_int m + 1 - 1 / 2 ^ 45
              \<longrightarrow> \<lfloor>binary64 (random1 env * 500)\<rfloor> = m)
          \<and> (\<lfloor>binary64 (random1 env * 500)\<rfloor> = m
              \<longrightarrow> of_int m - 1 / 2 ^ 45 \<le> random1 env * 500 \<and> random1 env * 500 < of_int m + 1))
    \<and> timers (snd (work_handler (random1 env) (random2 env) (ctx_for req))) =
         [\<lfloor>binary64 (random1 env * 500)\<rfloor>]
    \<and> binary64 (1 / 10) = 3602879701896397 / 2 ^ 55
    \<and> 1 / 10 < binary64 (1 / 10) \<and> binary64 (1 / 10) < 1 / 10 + 1 / 2 ^ 57
    \<and> (if random2 env < binary64 (1 / 10)
       then response_of env req s =
              \<lparr>statusCode = 500, headers = [],
               sent = Some (JsonBody [(''ok'', JBool False), (''error'', JStr ''Random failure occurred'')])\<rparr>
          \<and> spans (state_after env req s) =
              spans s @ [(''work_route'', [SetStatus ERROR (Some ''Random failure''), End, End])]
       else response_of env req s =
              (if req_fresh req (JsonBody [(''ok'', JBool True),
                                            (''simulated_ms'', JInt \<lfloor>binary64 (random1 env * 500)\<rfloor>)])
               then \<lparr>statusCode = 304, headers = [], sent = Some EmptyBody\<rparr>
               else \<lparr>statusCode = 200, headers = [],
                     sent = Some (JsonBody [(''ok'', JBool True),
                                            (''simulated_ms'', JInt \<lfloor>binary64 (random1 env * 500)\<rfloor>)])\<rparr>)
          \<and> spans (state_after env req s) = spans s @ [(''work_route'', [SetStatus OK None, End])])"
proof -
  note r = ms_range [OF assms(2,3)]
  have v: "\<forall>m. (of_int m \<le> random1 env * 500 \<and> random1 env * 500 < of_int m + 1 - 1 / 2 ^ 45
              \<longrightarrow> \<lfloor>binary64 (random1 env * 500)\<rfloor> = m)
          \<and> (\<lfloor>binary64 (random1 env * 500)\<rfloor> = m
              \<longrightarrow> of_int m - 1 / 2 ^ 45 \<le> random1 env * 500 \<and> random1 env * 500 < of_int m + 1)"
    using ms_value [OF assms(2,3)] by blast
  have t: "timers (snd (work_handler (random1 env) (random2 env) (ctx_for req))) =
         [\<lfloor>binary64 (random1 env * 500)\<rfloor>]"
    unfolding ctx_for_def by (rule work_handler_timers)
  have b: "if random2 env < binary64 (1 / 10)
       then response_of env req s =
              \<lparr>statusCode = 500, headers = [],
               sent = Some (JsonBody [(''ok'', JBool False), (''error'', JStr ''Random failure occurred'')])\<rparr>
          \<and> spans (state_after env req s) =
              spans s @ [(''work_route'', [SetStatus ERROR (Some ''Random failure''), End, End])]
       else response_of env req s =
              (if req_fresh req (JsonBody [(''ok'', JBool True),
                                            (''simulated_ms'', JInt \<lfloor>binary64 (random1 env * 500)\<rfloor>)])
               then \<lparr>statusCode = 304, headers = [], sent = Some EmptyBody\<rparr>
               else \<lparr>statusCode = 200, headers = [],
                     sent = Some (JsonBody [(''ok'', JBool True),
                                            (''simulated_ms'', JInt \<lfloor>binary64 (random1 env * 500)\<rfloor>)])\<rparr>)
          \<and> spans (state_after env req s) = spans s @ [(''work_route'', [SetStatus OK None, End])]"
    using middleware_work_route [OF assms(1), of env s]
    by (cases "random2 env < binary64 (1 / 10)") simp_all
  have th: "binary64 (1 / 10) = 3602879701896397 / 2 ^ 55"
    "1 / 10 < binary64 (1 / 10)" "binary64 (1 / 10) < 1 / 10 + 1 / 2 ^ 57"
    by (simp_all add: binary64_one_tenth)
  from r v t th b show ?thesis by blast
qed

theorem work_route_behaviour_witness:
  "req_route (get_request ''/work'' (Some WorkRoute)) = Some WorkRoute \<and>
   0 \<le> random1 sample_env \<and> random1 sample_env \<le> 1 - 1 / 2 ^ 53 \<and>
   random2 sample_env < binary64 (1 / 10) \<and>
   \<lfloor>binary64 (random1 sample_env * 500)\<rfloor> = 125 \<and>
   timers (snd (work_handler (random1 sample_env) (random2 sample_env)
                 (ctx_for (get_request ''/work'' (Some WorkRoute))))) = [125] \<and>
   statusCode (response_of sample_env (get_request ''/work'' (Some WorkRoute)) initial_state) = 500 \<and>
   response_of (sample_env\<lparr>random2 := 1 / 2\<rparr>) (get_request ''/work'' (Some WorkRoute)) initial_state =
     \<lparr>statusCode = 200, headers = [],
      sent = Some (JsonBody [(''ok'', JBool True), (''simulated_ms'', JInt 125)])\<rparr>"
proof -
  let ?q = "get_request ''/work'' (Some WorkRoute)"
  let ?e = "sample_env\<lparr>random2 := 1 / 2\<rparr>"
  have q: "req_route ?q = Some WorkRoute" "\<not> req_fresh ?q b" for b
    by (simp_all add: get_request_def)
  have a: "0 \<le> random1 sample_env" "random1 sample_env \<le> 1 - 1 / 2 ^ 53"
    "0 \<le> random1 ?e" "random1 ?e \<le> 1 - 1 / 2 ^ 53"
    by (simp_all add: sample_env_def)
  have d: "random2 sample_env < binary64 (1 / 10)" "\<not> random2 ?e < binary64 (1 / 10)" "random1 ?e = random1 sample_env"
    by (simp_all add: sample_env_def binary64_one_tenth)
  have x: "random1 sample_env * 500 = 125" by (simp add: sample_env_def)
  note t1 = work_route_behaviour [OF q(1) a(1,2), of initial_state]
  note t2 = work_route_behaviour [OF q(1) a(3,4), of initial_state]
  from t1 have v: "(of_int 125 \<le> random1 sample_env * 500 \<and>
                    random1 sample_env * 500 < of_int 125 + 1 - 1 / 2 ^ 45
                    \<longrightarrow> \<lfloor>binary64 (random1 sample_env * 500)\<rfloor> = 125)"
    by blast
  have ms: "\<lfloor>binary64 (random1 sample_env * 500)\<rfloor> = 125"
    using v unfolding x by simp
  from t1 have tm: "timers (snd (work_handler (random1 sample_env) (random2 sample_env) (ctx_for ?q))) =
                      [\<lfloor>binary64 (random1 sample_env * 500)\<rfloor>]"
    by blast
  from t1 d(1) have r1: "statusCode (response_of sample_env ?q initial_state) = 500"
    by simp
  from t2 d(2) have "response_of ?e ?q initial_state =
              (if req_fresh ?q (JsonBody [(''ok'', JBool True),
                                           (''simulated_ms'', JInt \<lfloor>binary64 (random1 ?e * 500)\<rfloor>)])
               then \<lparr>statusCode = 304, headers = [], sent = Some EmptyBody\<rparr>
               else \<lparr>statusCode = 200, headers = [],
                     sent = Some (JsonBody [(''ok'', JBool True),
                                            (''simulated_ms'', JInt \<lfloor>binary64 (random1 ?e * 500)\<rfloor>)])\<rparr>)"
    by simp
  then have r2: "response_of ?e ?q initial_state =
     \<lparr>statusCode = 200, headers = [],
      sent = Some (JsonBody [(''ok'', JBool True), (''simulated_ms'', JInt 125)])\<rparr>"
    unfolding d(3) ms by (simp add: q(2))
  from q(1) a(1,2) d(1) ms tm r1 r2 show ?thesis by simp
qed

subsection \<open>The route \<open>/error\<close> (C6)\<close>

text \<open>
  C6: every request dispatched to \<open>/error\<close> is answered with status 500 and the body
  \<open>{ok: false, error: "Simulated server error"}\<close>; its span is given the status ERROR
  with the message \<open>Forced error\<close> and ended; and the request adds exactly one to
  \<open>errorRequests\<close> at route \<open>/error\<close>, leaves the other series of that counter alone
  and increments no series of \<open>successRequests\<close>.
\<close>

theorem error_route_always_fails:
  assumes "req_route req = Some ErrorRoute"
  shows "response_of env req s =
           \<lparr>statusCode = 500, headers = [],
            sent = Some (JsonBody [(''ok'', JBool False), (''error'', JStr ''Simulated server error'')])\<rparr>
       \<and> spans (state_after env req s) =
           spans s @ [(''error_route'', [SetStatus ERROR (Some ''Forced error''), End])]
       \<and> count_of (errorRequests (reg (state_after env req s))) ''/error'' =
           count_of (errorRequests (reg s)) ''/error'' + 1
       \<and> (\<forall>rt. rt \<noteq> ''/error'' \<longrightarrow>
             count_of (errorRequests (reg (state_after env req s))) rt = count_of (errorRequests (reg s)) rt)
       \<and> successRequests (reg (state_after env req s)) = successRequests (reg s)"
  by (simp add: middleware_error_route [OF assms] on_finish_reg on_finish_spans
        route_label_matched [OF assms] count_of_inc)

theorem error_route_always_fails_witness:
  "req_route (get_request ''/error'' (Some ErrorRoute)) = Some ErrorRoute \<and>
   statusCode (response_of sample_env (get_request ''/error'' (Some ErrorRoute)) initial_state) = 500 \<and>
   spans (state_after sample_env (get_request ''/error'' (Some ErrorRoute)) initial_state) =
     [(''error_route'', [SetStatus ERROR (Some ''Forced error''), End])] \<and>
   count_of (errorRequests (reg (state_after sample_env (get_request ''/error'' (Some ErrorRoute)) initial_state))) ''/error'' = 1 \<and>
   successRequests (reg (state_after sample_env (get_request ''/error'' (Some ErrorRoute)) initial_state)) = Map.empty"
proof -
  have q: "req_route (get_request ''/error'' (Some ErrorRoute)) = Some ErrorRoute"
    by (simp add: get_request_def)
  from error_route_always_fails [OF q, of sample_env initial_state] q
  show ?thesis
    by (simp add: initial_state_def empty_registry_def count_of_def)
qed

subsection \<open>The route label (C7)\<close>



subsection \<open>Failure of the log write (C8)\<close>

text \<open>
  C8 says that a failure of the log-file write is reported to the process's diagnostic
  stream and otherwise swallowed, and never ends the process. server.js registers no
  \<open>error\<close> listener on \<open>logStream\<close> and writes nothing itself when the write
  fails: the stream's \<open>error\<close> event is thrown as an uncaught exception, and the
  console holds no report of it.
\<close>

theorem log_write_failure_is_uncaught:
  "uncaught (state_after disk_full_env (get_request ''/'' (Some RootRoute)) started_state) =
     Some ''ENOSPC: no space left on device, write'' \<and>
   console (state_after disk_full_env (get_request ''/'' (Some RootRoute)) started_state) =
     [Pino Info [(''method'', JStr ''GET''), (''route'', JStr ''/''), (''status'', JInt 200),
                 (''duration_s'', JNum (5764607523034235 / 2305843009213693952))] ''request_finished'']"
proof -
  let ?q = "get_request ''/'' (Some RootRoute)"
  have q: "req_route ?q = Some RootRoute" "req_method ?q = ''GET''"
    "\<not> req_fresh ?q (JsonBody [(''ok'', JBool True), (''message'', JStr ''Hello from demo app'')])"
    by (simp_all add: get_request_def)
  note m = middleware_root_route [OF q(1), of disk_full_env started_state]
  have w: "write_error disk_full_env = Some ''ENOSPC: no space left on device, write''"
    by (simp add: disk_full_env_def)
  have d: "delta_of disk_full_env (hr_start disk_full_env) = 5764607523034235 / 2305843009213693952"
    by (simp add: delta_of_def disk_full_env_def sample_env_def binary64_eval)
  have st: "statusCode (response_of disk_full_env ?q started_state) = 200"
    using m(1) q(3) by simp
  have c: "console (handled disk_full_env ?q started_state) = []"
    using m(2) by (simp add: started_state_eq)
  show ?thesis
    unfolding middleware_result(3)
    by (simp add: on_finish_uncaught on_finish_console w logEntry_def d q(2) st c
          route_label_matched [OF q(1)])
qed

text \<open>
  The response of the request, which was sent before the callback ran, and the metrics
  are the same as with a successful write; nothing is appended to the file.
\<close>

lemma log_write_failure_leaves_response_and_metrics:
  fixes env :: env and req :: request and s :: state
  shows "response_of (env\<lparr>write_error := Some e\<rparr>) req s = response_of (env\<lparr>write_error := None\<rparr>) req s
     \<and> reg (state_after (env\<lparr>write_error := Some e\<rparr>) req s) = reg (state_after (env\<lparr>write_error := None\<rparr>) req s)
     \<and> files (state_after (env\<lparr>write_error := Some e\<rparr>) req s) = files s"
proof -
  have "router (env\<lparr>write_error := Some e\<rparr>) req (reg s) = router (env\<lparr>write_error := None\<rparr>) req (reg s)"
    by (simp add: router_def split: option.splits route.splits)
  then have "response_of (env\<lparr>write_error := Some e\<rparr>) req s = response_of (env\<lparr>write_error := None\<rparr>) req s"
    by (simp add: response_of_def middleware_def Let_def split: prod.splits)
  then show ?thesis
    by (simp add: middleware_records labels_of_def delta_of_def)
qed

subsection \<open>The log file and its lines (C9)\<close>



subsection \<open>The recorded duration (C10)\<close>

text \<open>
  C10: the duration recorded for a request is the difference of the two readings of the
  nanosecond clock, converted to a number and divided by \<open>10^9\<close>, both in binary64
  arithmetic. With a monotonic clock it is not negative. It is the elapsed time in
  seconds up to rounding: for a difference below \<open>2^64\<close> nanoseconds (584 years) the
  error is at most the fraction \<open>2^-52 + 2^-106\<close> of the elapsed time and below 5
  microseconds, and for a difference below \<open>2^53\<close> nanoseconds (104 days) the
  conversion is exact and the error is at most the fraction \<open>2^-53\<close> of the elapsed
  time. This one value is the histogram's observation, the \<open>duration_s\<close> field of the
  record given to the logger and the \<open>duration_s\<close> field of the line appended to the
  log file.
\<close>

theorem duration_from_monotonic_clock:
  fixes env :: env and req :: request and s :: state
  assumes "hr_start env \<le> hr_finish env"
  shows "0 \<le> delta_of env (hr_start env)
     \<and> (hr_finish env - hr_start env < 2 ^ 64 \<longrightarrow>
          \<bar>delta_of env (hr_start env) - of_int (hr_finish env - hr_start env) / 1000000000\<bar>
            \<le> of_int (hr_finish env - hr_start env) / 1000000000 * (1 / 2 ^ 52 + 1 / 2 ^ 106)
          \<and> \<bar>delta_of env (hr_start env) - of_int (hr_finish env - hr_start env) / 1000000000\<bar>
            < 1 / 200000)
     \<and> (hr_finish env - hr_start env < 2 ^ 53 \<longrightarrow>
          \<bar>delta_of env (hr_start env) - of_int (hr_finish env - hr_start env) / 1000000000\<bar>
            \<le> of_int (hr_finish env - hr_start env) / 1000000000 / 2 ^ 53)
     \<and> observations (httpDuration (reg (state_after env req s))) (labels_of req (response_of env req s)) =
         observations (httpDuration (reg s)) (labels_of req (response_of env req s)) @ [delta_of env (hr_start env)]
     \<and> last (console (state_after env req s)) =
         Pino Info [(''method'', JStr (req_method req)), (''route'', JStr (route_label req)),
                    (''status'', JInt (statusCode (response_of env req s))),
                    (''duration_s'', JNum (delta_of env (hr_start env)))] ''request_finished''
     \<and> (write_error env = None \<longrightarrow>
          files (state_after env req s) (logFile env) =
            Some ((case files s (logFile env) of None \<Rightarrow> [] | Some old \<Rightarrow> old) @
                  now_iso env @ '' '' @
                  ''{'' @ quote ''method'' @ '':'' @ quote (req_method req) @ '','' @
                  quote ''route'' @ '':'' @ quote (route_label req) @ '','' @
                  quote ''status'' @ '':'' @ String_int (statusCode (response_of env req s)) @ '','' @
                  quote ''duration_s'' @ '':'' @ show_num env (delta_of env (hr_start env)) @ ''}'' @
                  [CHR 0x0A]))"
proof -
  let ?n = "hr_finish env - hr_start env"
  have n: "0 \<le> ?n" using assms by simp
  have d: "delta_of env (hr_start env) = binary64 (binary64 (of_int ?n) / 1000000000)"
    by (simp add: delta_of_def)
  have "0 \<le> binary64 (of_int ?n)"
    using n by (intro binary64_nonneg) simp
  then have p: "0 \<le> delta_of env (hr_start env)"
    unfolding d by (intro binary64_nonneg) simp
  have e64: "?n < 2 ^ 64 \<longrightarrow>
          \<bar>delta_of env (hr_start env) - of_int ?n / 1000000000\<bar>
            \<le> of_int ?n / 1000000000 * (1 / 2 ^ 52 + 1 / 2 ^ 106)
          \<and> \<bar>delta_of env (hr_start env) - of_int ?n / 1000000000\<bar> < 1 / 200000"
    unfolding d using seconds_error [OF n] by blast
  have e53: "?n < 2 ^ 53 \<longrightarrow>
          \<bar>delta_of env (hr_start env) - of_int ?n / 1000000000\<bar> \<le> of_int ?n / 1000000000 / 2 ^ 53"
    unfolding d using seconds_error_exact [OF n] by blast
  have o: "observations (httpDuration (reg (state_after env req s))) (labels_of req (response_of env req s)) =
         observations (httpDuration (reg s)) (labels_of req (response_of env req s)) @ [delta_of env (hr_start env)]"
    by (simp add: middleware_records(1) observations_observe)
  have c: "last (console (state_after env req s)) =
         Pino Info [(''method'', JStr (req_method req)), (''route'', JStr (route_label req)),
                    (''status'', JInt (statusCode (response_of env req s))),
                    (''duration_s'', JNum (delta_of env (hr_start env)))] ''request_finished''"
    by (simp add: middleware_records(2) logEntry_def)
  have f: "write_error env = None \<longrightarrow>
          files (state_after env req s) (logFile env) =
            Some ((case files s (logFile env) of None \<Rightarrow> [] | Some old \<Rightarrow> old) @
                  now_iso env @ '' '' @
                  ''{'' @ quote ''method'' @ '':'' @ quote (req_method req) @ '','' @
                  quote ''route'' @ '':'' @ quote (route_label req) @ '','' @
                  quote ''status'' @ '':'' @ String_int (statusCode (response_of env req s)) @ '','' @
                  quote ''duration_s'' @ '':'' @ show_num env (delta_of env (hr_start env)) @ ''}'' @
                  [CHR 0x0A])"
    by (simp add: middleware_records(3) JSON_stringify_logEntry)
  from p e64 e53 o c f show ?thesis by blast
qed

theorem duration_from_monotonic_clock_witness:
  "hr_start sample_env \<le> hr_finish sample_env \<and>
   hr_finish sample_env - hr_start sample_env = 2500000 \<and>
   hr_finish sample_env - hr_start sample_env < 2 ^ 53 \<and>
   write_error sample_env = None \<and>
   delta_of sample_env (hr_start sample_env) = 5764607523034235 / 2305843009213693952 \<and>
   \<bar>delta_of sample_env (hr_start sample_env) - 1 / 400\<bar> \<le> 1 / 400 / 2 ^ 53 \<and>
   observations (httpDuration (reg (state_after sample_env (get_request ''/'' (Some RootRoute)) initial_state)))
     (''GET'', ''/'', ''200'') = [5764607523034235 / 2305843009213693952] \<and>
   files (state_after sample_env (get_request ''/'' (Some RootRoute)) initial_state) ''/app/logs/app.log'' =
     Some (''2025-01-01T00:00:00.000Z {'' @
           [CHR 0x22] @ ''method'' @ [CHR 0x22] @ '':'' @ [CHR 0x22] @ ''GET'' @ [CHR 0x22] @ '','' @
           [CHR 0x22] @ ''route'' @ [CHR 0x22] @ '':'' @ [CHR 0x22] @ ''/'' @ [CHR 0x22] @ '','' @
           [CHR 0x22] @ ''status'' @ [CHR 0x22] @ '':200,'' @
           [CHR 0x22] @ ''duration_s'' @ [CHR 0x22] @ '':0.0025}'' @ [CHR 0x0A])"
proof -
  let ?q = "get_request ''/'' (Some RootRoute)"
  have h: "hr_start sample_env \<le> hr_finish sample_env" by (simp add: sample_env_def)
  have n: "hr_finish sample_env - hr_start sample_env = 2500000" by (simp add: sample_env_def)
  have n53: "hr_finish sample_env - hr_start sample_env < 2 ^ 53" unfolding n by simp
  have w: "write_error sample_env = None" by (simp add: sample_env_def)
  have q: "req_route ?q = Some RootRoute" "req_method ?q = ''GET''"
    "\<not> req_fresh ?q (JsonBody [(''ok'', JBool True), (''message'', JStr ''Hello from demo app'')])"
    by (simp_all add: get_request_def)
  have st: "statusCode (response_of sample_env ?q initial_state) = 200"
    using middleware_root_route(1) [OF q(1), of sample_env initial_state] q(3) by simp
  have l: "labels_of ?q (response_of sample_env ?q initial_state) = (''GET'', ''/'', ''200'')"
    by (simp add: labels_of_def st route_label_matched [OF q(1)] String_int_status q(2))
  have d: "delta_of sample_env (hr_start sample_env) = 5764607523034235 / 2305843009213693952"
    by (simp add: delta_of_def sample_env_def binary64_eval)
  have lf: "logFile sample_env = ''/app/logs/app.log''"
    by (rule logFile_default) (simp add: sample_env_def)
  note t = duration_from_monotonic_clock [OF h, of ?q initial_state]
  from t n53
  have "\<bar>delta_of sample_env (hr_start sample_env) -
          of_int (hr_finish sample_env - hr_start sample_env) / 1000000000\<bar>
            \<le> of_int (hr_finish sample_env - hr_start sample_env) / 1000000000 / 2 ^ 53"
    by blast
  then have er: "\<bar>delta_of sample_env (hr_start sample_env) - 1 / 400\<bar> \<le> 1 / 400 / 2 ^ 53"
    unfolding n by simp
  from t
  have "observations (httpDuration (reg (state_after sample_env ?q initial_state)))
          (labels_of ?q (response_of sample_env ?q initial_state)) =
        observations (httpDuration (reg initial_state))
          (labels_of ?q (response_of sample_env ?q initial_state)) @
        [delta_of sample_env (hr_start sample_env)]"
    by blast
  then have ob: "observations (httpDuration (reg (state_after sample_env ?q initial_state)))
          (''GET'', ''/'', ''200'') = [5764607523034235 / 2305843009213693952]"
    unfolding l d by (simp add: initial_state_def empty_registry_def observations_def)
  from t w
  have fl: "files (state_after sample_env ?q initial_state) (logFile sample_env) =
            Some ((case files initial_state (logFile sample_env) of None \<Rightarrow> [] | Some old \<Rightarrow> old) @
                  now_iso sample_env @ '' '' @
                  ''{'' @ quote ''method'' @ '':'' @ quote (req_method ?q) @ '','' @
                  quote ''route'' @ '':'' @ quote (route_label ?q) @ '','' @
                  quote ''status'' @ '':'' @ String_int (statusCode (response_of sample_env ?q initial_state)) @ '','' @
                  quote ''duration_s'' @ '':'' @ show_num sample_env (delta_of sample_env (hr_start sample_env)) @ ''}'' @
                  [CHR 0x0A])"
    by blast
  have z: "files initial_state f = None" for f
    by (simp add: initial_state_def)
  have v: "quote ''method'' = [CHR 0x22] @ ''method'' @ [CHR 0x22]"
    "quote ''GET'' = [CHR 0x22] @ ''GET'' @ [CHR 0x22]"
    "quote ''route'' = [CHR 0x22] @ ''route'' @ [CHR 0x22]"
    "quote ''/'' = [CHR 0x22] @ ''/'' @ [CHR 0x22]"
    "quote ''status'' = [CHR 0x22] @ ''status'' @ [CHR 0x22]"
    "quote ''duration_s'' = [CHR 0x22] @ ''duration_s'' @ [CHR 0x22]"
    by (simp_all add: quote_def escape_char_def)
  have fv: "files (state_after sample_env ?q initial_state) ''/app/logs/app.log'' =
     Some (''2025-01-01T00:00:00.000Z {'' @
           [CHR 0x22] @ ''method'' @ [CHR 0x22] @ '':'' @ [CHR 0x22] @ ''GET'' @ [CHR 0x22] @ '','' @
           [CHR 0x22] @ ''route'' @ [CHR 0x22] @ '':'' @ [CHR 0x22] @ ''/'' @ [CHR 0x22] @ '','' @
           [CHR 0x22] @ ''status'' @ [CHR 0x22] @ '':200,'' @
           [CHR 0x22] @ ''duration_s'' @ [CHR 0x22] @ '':0.0025}'' @ [CHR 0x0A])"
    using fl unfolding lf z st q(2) route_label_matched [OF q(1)] v
    by (simp add: String_int_status sample_env_def v)
  from h n n53 w d er ob fv show ?thesis by blast
qed

end
